theory Spec2Isabelle
  imports Complex_Main
begin

section \<open>Tensors, errors and the modules of the framework\<close>

text \<open>
  Every tensor operation of \<^verbatim>\<open>nerf/network.py\<close> acts on the last dimension
  (\<^verbatim>\<open>x[..., [0, 1]]\<close>, \<^verbatim>\<open>f[..., 0]\<close>, \<^verbatim>\<open>dim=-1\<close>, \<^verbatim>\<open>squeeze(-1)\<close>) and
  independently at every position of the leading (batch) dimensions. A tensor of shape
  \<^verbatim>\<open>[..., C]\<close> is therefore modelled at one batch position: a \<open>row\<close> of \<open>C\<close> numbers.
  A point \<^verbatim>\<open>x: [N, 3]\<close> and a direction \<^verbatim>\<open>d: [N, 3]\<close> are triples at one batch
  position. Numbers are reals.
\<close>

type_synonym row = "real list"
type_synonym vec3 = "real \<times> real \<times> real"
type_synonym param = "real list"

text \<open>What is left of a tensor at one batch position: a scalar or a row.\<close>

datatype tens = Sc real | Vec row

datatype error = AttributeError | IndexError | RuntimeError

definition and_then :: "error + 'a \<Rightarrow> ('a \<Rightarrow> error + 'b) \<Rightarrow> error + 'b" where
  "and_then m k = (case m of Inl e \<Rightarrow> Inl e | Inr v \<Rightarrow> k v)"

text \<open>
  \<^verbatim>\<open>nn.Linear\<close> and the encoders returned by \<^verbatim>\<open>get_encoder\<close> belong to the
  framework: a module is the function it computes with its current parameters (which may
  raise on a row of the wrong width) and the list of parameter tensors it registers.
  An encoder is called with or without the keyword \<^verbatim>\<open>bound\<close>.
\<close>

record Linear =
  lin_call :: "row \<Rightarrow> error + row"
  lin_parameters :: "param list"

record Encoder =
  enc_call :: "row \<Rightarrow> real option \<Rightarrow> error + row"
  enc_parameters :: "param list"

datatype kwarg = KInt int | KStr string

text \<open>
  Each call of a constructor of the framework creates a fresh module with parameters of
  its own. The model names a call by the attribute path under which the module is stored
  (and, for the layers of an MLP, the layer index), so that two calls with equal arguments
  may return different modules.
\<close>

record torch =
  nn_Linear :: "string \<times> int \<Rightarrow> nat \<Rightarrow> nat \<Rightarrow> bool \<Rightarrow> Linear"
  get_encoder :: "string \<Rightarrow> string \<Rightarrow> (string \<times> kwarg) list \<Rightarrow> Encoder \<times> nat"

subsection \<open>Tensor operations used by the network\<close>

definition py_range :: "int \<Rightarrow> int list" where
  "py_range n = map int [0..<nat n]"

definition relu :: "row \<Rightarrow> row" where
  "relu x = map (\<lambda>v. max 0 v) x"

definition sigmoid :: "real \<Rightarrow> real" where
  "sigmoid v = 1 / (1 + exp (- v))"

definition clamp :: "real \<Rightarrow> real \<Rightarrow> real \<Rightarrow> real" where
  "clamp v lo hi = min (max v lo) hi"

text \<open>
  Modelled from the spec: \<^verbatim>\<open>trunc_exp\<close> is imported from the module
  \<^verbatim>\<open>activation\<close>, which is not part of the sources at hand. The spec describes it
  as an exponential activation whose backward pass is gradient-clamped; its forward value
  is the exponential.
\<close>

definition trunc_exp :: "real \<Rightarrow> real" where
  "trunc_exp v = exp v"

text \<open>
  \<^verbatim>\<open>a + b\<close> on the last dimension: equal widths add elementwise, a width of one is
  broadcast, any other pair of widths raises.
\<close>

definition tadd :: "row \<Rightarrow> row \<Rightarrow> error + row" where
  "tadd a b =
     (if length a = length b then Inr (map (\<lambda>(u, v). u + v) (zip a b))
      else if length a = 1 then Inr (map (\<lambda>v. hd a + v) b)
      else if length b = 1 then Inr (map (\<lambda>u. u + hd b) a)
      else Inl RuntimeError)"

text \<open>\<^verbatim>\<open>f[..., i]\<close> for a non-negative constant \<open>i\<close>.\<close>

definition getitem :: "row \<Rightarrow> nat \<Rightarrow> error + real" where
  "getitem f i = (if i < length f then Inr (f ! i) else Inl IndexError)"

text \<open>\<^verbatim>\<open>f[..., lo:hi]\<close> and \<^verbatim>\<open>f[..., lo:]\<close> for non-negative constants.\<close>

definition slice :: "row \<Rightarrow> nat \<Rightarrow> nat \<Rightarrow> row" where
  "slice f lo hi = take (hi - lo) (drop lo f)"

definition slice_from :: "row \<Rightarrow> nat \<Rightarrow> row" where
  "slice_from f lo = drop lo f"

text \<open>\<^verbatim>\<open>torch.cat(rows, dim=-1)\<close>.\<close>

definition cat :: "row list \<Rightarrow> row" where
  "cat rows = concat rows"

text \<open>\<^verbatim>\<open>t.squeeze(-1)\<close>: a last dimension of size one is removed, any other is kept.\<close>

definition squeeze_last :: "row \<Rightarrow> tens" where
  "squeeze_last y = (if length y = 1 then Sc (hd y) else Vec y)"

fun tmap :: "(real \<Rightarrow> real) \<Rightarrow> tens \<Rightarrow> tens" where
  "tmap g (Sc v) = Sc (g v)"
| "tmap g (Vec r) = Vec (map g r)"

definition row3 :: "vec3 \<Rightarrow> row" where
  "row3 x = (case x of (x0, x1, x2) \<Rightarrow> [x0, x1, x2])"

definition index_01 :: "vec3 \<Rightarrow> row" where
  "index_01 x = (case x of (x0, x1, x2) \<Rightarrow> [x0, x1])"

definition index_12 :: "vec3 \<Rightarrow> row" where
  "index_12 x = (case x of (x0, x1, x2) \<Rightarrow> [x1, x2])"

definition index_02 :: "vec3 \<Rightarrow> row" where
  "index_02 x = (case x of (x0, x1, x2) \<Rightarrow> [x0, x2])"

text \<open>
  \<^verbatim>\<open>nn.ModuleList.__getitem__\<close> with an integer: indices from \<open>-len\<close> to \<open>len - 1\<close>
  are accepted, negative ones count from the end, any other raises.
\<close>

definition ModuleList_getitem :: "'a list \<Rightarrow> int \<Rightarrow> error + 'a" where
  "ModuleList_getitem ms i =
     (let n = int (length ms)
      in if - n \<le> i \<and> i < n then Inr (ms ! nat (if i < 0 then i + n else i))
         else Inl IndexError)"

section \<open>MLP\<close>

record MLP =
  dim_in :: nat
  dim_out :: nat
  dim_hidden :: nat
  num_layers :: int
  net :: "Linear list"

definition MLP_init :: "torch \<Rightarrow> string \<Rightarrow> nat \<Rightarrow> nat \<Rightarrow> nat \<Rightarrow> int \<Rightarrow> bool \<Rightarrow> MLP" where
  "MLP_init fw path d_in d_out d_hidden n bias =
     \<lparr> dim_in = d_in, dim_out = d_out, dim_hidden = d_hidden, num_layers = n,
       net = map (\<lambda>l. nn_Linear fw (path, l)
                        (if l = 0 then d_in else d_hidden)
                        (if l = n - 1 then d_out else d_hidden) bias)
                 (py_range n) \<rparr>"

text \<open>The body of the loop of \<^verbatim>\<open>MLP.forward\<close>, run over the indices that are left.\<close>

fun MLP_forward_loop :: "MLP \<Rightarrow> int list \<Rightarrow> row \<Rightarrow> error + row" where
  "MLP_forward_loop m [] x = Inr x"
| "MLP_forward_loop m (l # ls) x =
     and_then (ModuleList_getitem (net m) l) (\<lambda>layer.
     and_then (lin_call layer x) (\<lambda>x1.
       MLP_forward_loop m ls (if l \<noteq> num_layers m - 1 then relu x1 else x1)))"

definition MLP_forward :: "MLP \<Rightarrow> row \<Rightarrow> error + row" where
  "MLP_forward m x = MLP_forward_loop m (py_range (num_layers m)) x"

definition MLP_parameters :: "MLP \<Rightarrow> param list" where
  "MLP_parameters m = concat (map lin_parameters (net m))"

text \<open>
  The spec's wording of \<^verbatim>\<open>MLP.forward\<close>: the linear transforms in order, with a ReLU
  after every layer except the last.
\<close>

fun MLP_spec :: "Linear list \<Rightarrow> row \<Rightarrow> error + row" where
  "MLP_spec [] x = Inr x"
| "MLP_spec [layer] x = lin_call layer x"
| "MLP_spec (layer # layer' # layers) x =
     and_then (lin_call layer x) (\<lambda>x1. MLP_spec (layer' # layers) (relu x1))"

section \<open>HashEncoder\<close>

record HashEncoder =
  encoder :: Encoder
  in_dim :: nat
  mlp :: MLP

definition HashEncoder_init ::
  "torch \<Rightarrow> string \<Rightarrow> int \<Rightarrow> int \<Rightarrow> int \<Rightarrow> int \<Rightarrow> int \<Rightarrow> nat \<Rightarrow> int \<Rightarrow> nat \<Rightarrow> HashEncoder" where
  "HashEncoder_init fw path input_dim level_dim num_levels log2_hashmap_size
       desired_resolution output_dim n_layers hidden_dim =
     (case get_encoder fw (path @ ''.encoder'') ''tiledgrid''
             [(''input_dim'', KInt input_dim), (''level_dim'', KInt level_dim),
              (''num_levels'', KInt num_levels),
              (''log2_hashmap_size'', KInt log2_hashmap_size),
              (''desired_resolution'', KInt desired_resolution),
              (''interpolation'', KStr ''linear'')] of
        (enc, enc_dim) \<Rightarrow>
          \<lparr> encoder = enc, in_dim = enc_dim,
            mlp = MLP_init fw (path @ ''.mlp'') enc_dim output_dim hidden_dim n_layers False \<rparr>)"

definition HashEncoder_forward :: "HashEncoder \<Rightarrow> row \<Rightarrow> real \<Rightarrow> error + row" where
  "HashEncoder_forward h x bnd =
     and_then (enc_call (encoder h) x (Some bnd)) (\<lambda>e. MLP_forward (mlp h) e)"

definition HashEncoder_parameters :: "HashEncoder \<Rightarrow> param list" where
  "HashEncoder_parameters h = enc_parameters (encoder h) @ MLP_parameters (mlp h)"

section \<open>NeRFNetwork\<close>

record opts =
  cuda_ray :: bool
  opt_bound :: real

text \<open>
  The attributes \<^verbatim>\<open>prop_encoders\<close> and \<^verbatim>\<open>prop_mlp\<close> exist only when
  \<^verbatim>\<open>__init__\<close> has assigned them, under \<^verbatim>\<open>if not self.opt.cuda_ray\<close>:
  \<open>None\<close> is the missing attribute, and reading it raises \<^verbatim>\<open>AttributeError\<close>.
\<close>

record NeRFNetwork =
  opt :: opts
  bound :: real
  grid :: HashEncoder
  planeXY :: HashEncoder
  planeYZ :: HashEncoder
  planeXZ :: HashEncoder
  view_encoder :: Encoder
  view_in_dim :: nat
  view_mlp :: MLP
  prop_encoders :: "Encoder list option"
  prop_mlp :: "MLP list option"

text \<open>
  Modelled from the spec: the base class \<^verbatim>\<open>NeRFRenderer\<close> is not part of the sources
  at hand. By the spec, \<^verbatim>\<open>opt\<close> carries \<^verbatim>\<open>cuda_ray\<close> and the scene
  \<^verbatim>\<open>bound\<close>, consumed through the base class: \<^verbatim>\<open>super().__init__(opt)\<close> stores
  \<^verbatim>\<open>self.opt\<close> and \<^verbatim>\<open>self.bound\<close>.
\<close>

definition NeRFRenderer_bound :: "opts \<Rightarrow> real" where
  "NeRFRenderer_bound options = opt_bound options"

definition NeRFNetwork_init :: "torch \<Rightarrow> opts \<Rightarrow> NeRFNetwork" where
  "NeRFNetwork_init fw options =
     (case get_encoder fw ''view_encoder'' ''frequency''
             [(''input_dim'', KInt 3), (''multires'', KInt 4)] of
        (v_enc, v_dim) \<Rightarrow>
     (case (if \<not> cuda_ray options
            then
              (case get_encoder fw ''prop_encoders.0'' ''hashgrid''
                      [(''input_dim'', KInt 3), (''level_dim'', KInt 2),
                       (''num_levels'', KInt 5), (''log2_hashmap_size'', KInt 17),
                       (''desired_resolution'', KInt 128)] of
                 (prop0_encoder, prop0_in_dim) \<Rightarrow>
               case get_encoder fw ''prop_encoders.1'' ''hashgrid''
                      [(''input_dim'', KInt 3), (''level_dim'', KInt 2),
                       (''num_levels'', KInt 5), (''log2_hashmap_size'', KInt 17),
                       (''desired_resolution'', KInt 256)] of
                 (prop1_encoder, prop1_in_dim) \<Rightarrow>
                   (Some [prop0_encoder, prop1_encoder],
                    Some [MLP_init fw ''prop_mlp.0'' prop0_in_dim 1 16 2 False,
                          MLP_init fw ''prop_mlp.1'' prop1_in_dim 1 16 2 False]))
            else (None, None)) of
        (prop_es, prop_ms) \<Rightarrow>
       \<lparr> opt = options,
         bound = NeRFRenderer_bound options,
         grid = HashEncoder_init fw ''grid'' 3 2 16 19 512 8 2 64,
         planeXY = HashEncoder_init fw ''planeXY'' 2 2 16 19 2048 8 2 64,
         planeYZ = HashEncoder_init fw ''planeYZ'' 2 2 16 19 2048 8 2 64,
         planeXZ = HashEncoder_init fw ''planeXZ'' 2 2 16 19 2048 8 2 64,
         view_encoder = v_enc,
         view_in_dim = v_dim,
         view_mlp = MLP_init fw ''view_mlp'' (3 + 4 + v_dim) 3 16 3 True,
         prop_encoders = prop_es,
         prop_mlp = prop_ms \<rparr>))"

definition get_prop_encoders :: "NeRFNetwork \<Rightarrow> error + Encoder list" where
  "get_prop_encoders n =
     (case prop_encoders n of None \<Rightarrow> Inl AttributeError | Some es \<Rightarrow> Inr es)"

definition get_prop_mlp :: "NeRFNetwork \<Rightarrow> error + MLP list" where
  "get_prop_mlp n =
     (case prop_mlp n of None \<Rightarrow> Inl AttributeError | Some ms \<Rightarrow> Inr ms)"

definition common_forward :: "NeRFNetwork \<Rightarrow> vec3 \<Rightarrow> error + (row \<times> row \<times> row \<times> row)" where
  "common_forward n x =
     and_then (HashEncoder_forward (grid n) (row3 x) (bound n)) (\<lambda>f_grid.
     and_then (HashEncoder_forward (planeXY n) (index_01 x) (bound n)) (\<lambda>f_plane_01.
     and_then (HashEncoder_forward (planeYZ n) (index_12 x) (bound n)) (\<lambda>f_plane_12.
     and_then (HashEncoder_forward (planeXZ n) (index_02 x) (bound n)) (\<lambda>f_plane_02.
       Inr (f_grid, f_plane_01, f_plane_12, f_plane_02)))))"

text \<open>\<^verbatim>\<open>f_grid + f_plane_01 + f_plane_12 + f_plane_02\<close>, added from the left.\<close>

definition sum4 :: "row \<times> row \<times> row \<times> row \<Rightarrow> error + row" where
  "sum4 fs =
     (case fs of (f_grid, f_plane_01, f_plane_12, f_plane_02) \<Rightarrow>
        and_then (tadd f_grid f_plane_01) (\<lambda>s1.
        and_then (tadd s1 f_plane_12) (\<lambda>s2.
          tadd s2 f_plane_02)))"

text \<open>A Python dict with string keys, in the order of its literal; \<open>None\<close> is Python's.\<close>

type_synonym results = "(string \<times> tens option) list"

definition forward :: "NeRFNetwork \<Rightarrow> vec3 \<Rightarrow> vec3 \<Rightarrow> string \<Rightarrow> error + results" where
  "forward n x d shading =
     and_then (common_forward n x) (\<lambda>fs.
     and_then (sum4 fs) (\<lambda>f.
     and_then (getitem f 0) (\<lambda>f0.
       let sigma = trunc_exp (f0 - 1);
           diffuse = map sigmoid (slice f 1 4);
           f_specular = map sigmoid (slice_from f 4)
       in
     and_then (enc_call (view_encoder n) (row3 d) None) (\<lambda>d1.
       if shading = ''diffuse''
       then Inr [(''sigma'', Some (Sc sigma)), (''color'', Some (Vec diffuse)),
                 (''specular'', None)]
       else
         and_then (MLP_forward (view_mlp n) (cat [diffuse, f_specular, d1])) (\<lambda>s.
           let specular = map sigmoid s
           in if shading = ''specular''
              then Inr [(''sigma'', Some (Sc sigma)), (''color'', Some (Vec specular)),
                        (''specular'', Some (Vec specular))]
              else
                and_then (tadd specular diffuse) (\<lambda>sd.
                  Inr [(''sigma'', Some (Sc sigma)),
                       (''color'', Some (Vec (map (\<lambda>v. clamp v 0 1) sd))),
                       (''specular'', Some (Vec specular))]))))))"

text \<open>
  The guard of \<^verbatim>\<open>density\<close>, \<^verbatim>\<open>proposal >= 0 and proposal < len(self.prop_encoders)\<close>:
  the attribute is read only when the first conjunct holds.
\<close>

definition density_guard :: "NeRFNetwork \<Rightarrow> int \<Rightarrow> error + bool" where
  "density_guard n proposal =
     (if proposal \<ge> 0
      then and_then (get_prop_encoders n) (\<lambda>es. Inr (proposal < int (length es)))
      else Inr False)"

definition density :: "NeRFNetwork \<Rightarrow> vec3 \<Rightarrow> int \<Rightarrow> error + results" where
  "density n x proposal =
     and_then (density_guard n proposal) (\<lambda>c.
       if c
       then
         and_then (get_prop_mlp n) (\<lambda>ms.
         and_then (ModuleList_getitem ms proposal) (\<lambda>m.
         and_then (get_prop_encoders n) (\<lambda>es.
         and_then (ModuleList_getitem es proposal) (\<lambda>e.
         and_then (enc_call e (row3 x) (Some (bound n))) (\<lambda>h.
         and_then (MLP_forward m h) (\<lambda>y.
           Inr [(''sigma'', Some (tmap trunc_exp (tmap (\<lambda>v. v - 1) (squeeze_last y))))]))))))
       else
         and_then (common_forward n x) (\<lambda>fs.
         and_then (sum4 fs) (\<lambda>f.
         and_then (getitem f 0) (\<lambda>f0.
           Inr [(''sigma'', Some (Sc (trunc_exp (f0 - 1))))]))))"

record param_group =
  params :: "param list"
  lr :: real

definition get_params :: "NeRFNetwork \<Rightarrow> real \<Rightarrow> error + param_group list" where
  "get_params n rate =
     (let ps = [\<lparr> params = HashEncoder_parameters (grid n), lr = rate \<rparr>,
                \<lparr> params = HashEncoder_parameters (planeXY n), lr = rate \<rparr>,
                \<lparr> params = HashEncoder_parameters (planeYZ n), lr = rate \<rparr>,
                \<lparr> params = HashEncoder_parameters (planeXZ n), lr = rate \<rparr>,
                \<lparr> params = MLP_parameters (view_mlp n), lr = rate \<rparr>]
      in if \<not> cuda_ray (opt n)
         then
           and_then (get_prop_encoders n) (\<lambda>es.
           and_then (get_prop_mlp n) (\<lambda>ms.
             Inr (ps @ [\<lparr> params = concat (map enc_parameters es), lr = rate \<rparr>,
                        \<lparr> params = concat (map MLP_parameters ms), lr = rate \<rparr>])))
         else Inr ps)"

section \<open>The contract of the framework\<close>

text \<open>
  The contract of the framework that the constructors rely on: a layer made by
  \<^verbatim>\<open>nn.Linear(d_in, d_out)\<close> maps a row of width \<open>d_in\<close> to a row of width
  \<open>d_out\<close>, and an encoder made by \<^verbatim>\<open>get_encoder\<close> with \<^verbatim>\<open>input_dim=k\<close> maps a
  row of width \<open>k\<close> to a row of the width that \<^verbatim>\<open>get_encoder\<close> reports.
\<close>

definition conforming :: "torch \<Rightarrow> bool" where
  "conforming fw \<longleftrightarrow>
     (\<forall>site d_in d_out bias x. length x = d_in \<longrightarrow>
        (\<exists>y. lin_call (nn_Linear fw site d_in d_out bias) x = Inr y \<and> length y = d_out)) \<and>
     (\<forall>path kind kw k x bnd.
        map_of kw ''input_dim'' = Some (KInt (int k)) \<longrightarrow> length x = k \<longrightarrow>
        (\<exists>y. enc_call (fst (get_encoder fw path kind kw)) x bnd = Inr y \<and>
              length y = snd (get_encoder fw path kind kw)))"

text \<open>
  The feature row \<^verbatim>\<open>f = f_grid + f_plane_01 + f_plane_12 + f_plane_02\<close> that both
  \<^verbatim>\<open>forward\<close> and \<^verbatim>\<open>density\<close> compute from \<^verbatim>\<open>common_forward\<close>.
\<close>

definition features :: "NeRFNetwork \<Rightarrow> vec3 \<Rightarrow> error + row" where
  "features n x = and_then (common_forward n x) sum4"

text \<open>
  A small framework for concrete runs: every layer and every encoder returns the sum of its
  input in each output channel, and every encoder has four output channels.
\<close>

definition example_torch :: torch where
  "example_torch =
     \<lparr> nn_Linear = (\<lambda>site d_in d_out bias.
         \<lparr> lin_call = (\<lambda>x. if length x = d_in then Inr (replicate d_out (sum_list x))
                            else Inl RuntimeError),
           lin_parameters = (if bias then [replicate (d_out * d_in) 1, replicate d_out 0]
                             else [replicate (d_out * d_in) 1]) \<rparr>),
       get_encoder = (\<lambda>path kind kw.
         (\<lparr> enc_call = (\<lambda>x bnd. Inr (replicate 4 (sum_list x))),
            enc_parameters = [replicate 4 1] \<rparr>, 4)) \<rparr>"

section \<open>The network over a store of tensor objects\<close>

text \<open>
  \<^verbatim>\<open>MLP.forward\<close> applies \<^verbatim>\<open>F.relu(x, inplace=True)\<close>, which overwrites the tensor
  it is given. To show what that write can reach, the same code is run over a store of
  tensor objects: a tensor is an address into the store, every call of a module and every
  index expression allocates the tensor it returns, and the in-place ReLU writes at the
  address it is given. The results of tensor arithmetic are fresh tensors, kept as values;
  they enter the store when they are passed to a module.
\<close>

type_synonym store = "row list"

text \<open>A new tensor object, at the next free address.\<close>

definition alloc :: "store \<Rightarrow> row \<Rightarrow> store \<times> nat" where
  "alloc st v = (st @ [v], length st)"

text \<open>\<^verbatim>\<open>F.relu(x, inplace=True)\<close>: the tensor at the address is overwritten.\<close>

definition relu_inplace :: "store \<Rightarrow> nat \<Rightarrow> store" where
  "relu_inplace st a = st[a := relu (st ! a)]"

text \<open>\<^verbatim>\<open>x[..., cols]\<close> with a list of columns: a new tensor.\<close>

definition index_cols :: "row \<Rightarrow> nat list \<Rightarrow> row" where
  "index_cols r cols = map (\<lambda>c. r ! c) cols"

fun MLP_forward_loop_st :: "MLP \<Rightarrow> int list \<Rightarrow> store \<Rightarrow> nat \<Rightarrow> error + (store \<times> nat)" where
  "MLP_forward_loop_st m [] st a = Inr (st, a)"
| "MLP_forward_loop_st m (l # ls) st a =
     and_then (ModuleList_getitem (net m) l) (\<lambda>layer.
     and_then (lin_call layer (st ! a)) (\<lambda>y.
       case alloc st y of (st1, a1) \<Rightarrow>
         MLP_forward_loop_st m ls
           (if l \<noteq> num_layers m - 1 then relu_inplace st1 a1 else st1) a1))"

definition MLP_forward_st :: "MLP \<Rightarrow> store \<Rightarrow> nat \<Rightarrow> error + (store \<times> nat)" where
  "MLP_forward_st m st a = MLP_forward_loop_st m (py_range (num_layers m)) st a"

definition HashEncoder_forward_st ::
  "HashEncoder \<Rightarrow> store \<Rightarrow> nat \<Rightarrow> real \<Rightarrow> error + (store \<times> nat)" where
  "HashEncoder_forward_st h st a bnd =
     and_then (enc_call (encoder h) (st ! a) (Some bnd)) (\<lambda>e.
       case alloc st e of (st1, a1) \<Rightarrow> MLP_forward_st (mlp h) st1 a1)"

definition common_forward_st ::
  "NeRFNetwork \<Rightarrow> store \<Rightarrow> nat \<Rightarrow> error + (store \<times> nat \<times> nat \<times> nat \<times> nat)" where
  "common_forward_st n st ax =
     and_then (HashEncoder_forward_st (grid n) st ax (bound n)) (\<lambda>(st1, f_grid).
     case alloc st1 (index_cols (st1 ! ax) [0, 1]) of (st2, x01) \<Rightarrow>
     and_then (HashEncoder_forward_st (planeXY n) st2 x01 (bound n)) (\<lambda>(st3, f_plane_01).
     case alloc st3 (index_cols (st3 ! ax) [1, 2]) of (st4, x12) \<Rightarrow>
     and_then (HashEncoder_forward_st (planeYZ n) st4 x12 (bound n)) (\<lambda>(st5, f_plane_12).
     case alloc st5 (index_cols (st5 ! ax) [0, 2]) of (st6, x02) \<Rightarrow>
     and_then (HashEncoder_forward_st (planeXZ n) st6 x02 (bound n)) (\<lambda>(st7, f_plane_02).
       Inr (st7, f_grid, f_plane_01, f_plane_12, f_plane_02)))))"

definition forward_st ::
  "NeRFNetwork \<Rightarrow> store \<Rightarrow> nat \<Rightarrow> nat \<Rightarrow> string \<Rightarrow> error + (store \<times> results)" where
  "forward_st n st ax ad shading =
     and_then (common_forward_st n st ax) (\<lambda>(st1, f_grid, f_plane_01, f_plane_12, f_plane_02).
     and_then (sum4 (st1 ! f_grid, st1 ! f_plane_01, st1 ! f_plane_12, st1 ! f_plane_02)) (\<lambda>f.
     and_then (getitem f 0) (\<lambda>f0.
       let sigma = trunc_exp (f0 - 1);
           diffuse = map sigmoid (slice f 1 4);
           f_specular = map sigmoid (slice_from f 4)
       in
     and_then (enc_call (view_encoder n) (st1 ! ad) None) (\<lambda>d1.
       if shading = ''diffuse''
       then Inr (st1, [(''sigma'', Some (Sc sigma)), (''color'', Some (Vec diffuse)),
                       (''specular'', None)])
       else
         case alloc st1 (cat [diffuse, f_specular, d1]) of (st2, a) \<Rightarrow>
         and_then (MLP_forward_st (view_mlp n) st2 a) (\<lambda>(st3, s).
           let specular = map sigmoid (st3 ! s)
           in if shading = ''specular''
              then Inr (st3, [(''sigma'', Some (Sc sigma)), (''color'', Some (Vec specular)),
                              (''specular'', Some (Vec specular))])
              else
                and_then (tadd specular diffuse) (\<lambda>sd.
                  Inr (st3, [(''sigma'', Some (Sc sigma)),
                             (''color'', Some (Vec (map (\<lambda>v. clamp v 0 1) sd))),
                             (''specular'', Some (Vec specular))])))))))"

text \<open>Every tensor of the first store is in the second one, at its address, unchanged.\<close>

definition extends :: "store \<Rightarrow> store \<Rightarrow> bool" where
  "extends st st' \<longleftrightarrow> length st \<le> length st' \<and> (\<forall>b < length st. st' ! b = st ! b)"

section \<open>The loop of MLP.forward\<close>

lemma and_then_Inr [simp]: "and_then (Inr v) k = k v"
  by (simp add: and_then_def)

lemma and_then_Inl [simp]: "and_then (Inl e) k = Inl e"
  by (simp add: and_then_def)

lemma length_relu [simp]: "length (relu x) = length x"
  by (simp add: relu_def)

lemma ModuleList_getitem_nth:
  "k < length ms \<Longrightarrow> ModuleList_getitem ms (int k) = Inr (ms ! k)"
  by (simp add: ModuleList_getitem_def)

lemma MLP_forward_loop_step:
  "k < length (net m) \<Longrightarrow>
   MLP_forward_loop m (int k # ls) x =
     and_then (lin_call (net m ! k) x) (\<lambda>x1.
       MLP_forward_loop m ls (if int k \<noteq> num_layers m - 1 then relu x1 else x1))"
  by (simp add: ModuleList_getitem_nth)

lemma MLP_forward_loop_spec:
  assumes len: "length (net m) = nat (num_layers m)"
  shows "k \<le> nat (num_layers m) \<Longrightarrow>
    MLP_forward_loop m (map int [k..<nat (num_layers m)]) x = MLP_spec (drop k (net m)) x"
proof (induction "nat (num_layers m) - k" arbitrary: k x)
  case 0
  then show ?case using len by simp
next
  case (Suc j)
  then have k: "k < nat (num_layers m)" by linarith
  then have kl: "k < length (net m)" using len by simp
  have up: "map int [k..<nat (num_layers m)] = int k # map int [Suc k..<nat (num_layers m)]"
    using k by (simp add: upt_conv_Cons)
  have IH: "\<And>x. MLP_forward_loop m (map int [Suc k..<nat (num_layers m)]) x
               = MLP_spec (drop (Suc k) (net m)) x"
    using Suc.hyps(1)[of "Suc k"] Suc.hyps(2) k by simp
  have dr: "drop k (net m) = net m ! k # drop (Suc k) (net m)"
    using kl by (simp add: Cons_nth_drop_Suc)
  have step: "MLP_forward_loop m (map int [k..<nat (num_layers m)]) x =
     and_then (lin_call (net m ! k) x) (\<lambda>x1.
       MLP_spec (drop (Suc k) (net m)) (if int k \<noteq> num_layers m - 1 then relu x1 else x1))"
    unfolding up MLP_forward_loop_step[OF kl] IH ..
  show ?case
  proof (cases "Suc k = nat (num_layers m)")
    case True
    then have last: "int k = num_layers m - 1" by linarith
    have e: "drop (Suc k) (net m) = []" using True len by simp
    show ?thesis
      unfolding step dr e using last
      by (cases "lin_call (net m ! k) x") simp_all
  next
    case False
    then have nl: "int k \<noteq> num_layers m - 1" using k by linarith
    have "Suc k < length (net m)" using False kl len k by linarith
    then have e: "drop (Suc k) (net m) = net m ! Suc k # drop (Suc (Suc k)) (net m)"
      by (simp add: Cons_nth_drop_Suc)
    show ?thesis
      unfolding step dr using nl by (simp add: e)
  qed
qed

lemma MLP_forward_spec:
  "length (net m) = nat (num_layers m) \<Longrightarrow> MLP_forward m x = MLP_spec (net m) x"
  using MLP_forward_loop_spec[of m 0 x] by (simp add: MLP_forward_def py_range_def)

lemma MLP_init_fields [simp]:
  "num_layers (MLP_init fw path d_in d_out d_hidden n bias) = n"
  "length (net (MLP_init fw path d_in d_out d_hidden n bias)) = nat n"
  by (simp_all add: MLP_init_def py_range_def)

section \<open>Shapes: the calls of a constructed network do not raise\<close>

lemma conforming_Linear:
  "conforming fw \<Longrightarrow> length x = d_in \<Longrightarrow>
   \<exists>y. lin_call (nn_Linear fw site d_in d_out bias) x = Inr y \<and> length y = d_out"
  unfolding conforming_def by blast

lemma conforming_encoder:
  "conforming fw \<Longrightarrow> map_of kw ''input_dim'' = Some (KInt (int k)) \<Longrightarrow> length x = k \<Longrightarrow>
   \<exists>y. enc_call (fst (get_encoder fw path kind kw)) x bnd = Inr y \<and>
       length y = snd (get_encoder fw path kind kw)"
  unfolding conforming_def by blast

lemma MLP_spec_layers_ok:
  assumes fw: "conforming fw"
  shows "k < N \<Longrightarrow> length x = (if k = 0 then d_in else d_hidden) \<Longrightarrow>
    \<exists>y. MLP_spec (map (\<lambda>l. nn_Linear fw (path, l)
                          (if l = 0 then d_in else d_hidden)
                          (if l = int N - 1 then d_out else d_hidden) bias)
                     (map int [k..<N])) x = Inr y \<and> length y = d_out"
proof (induction "N - k" arbitrary: k x)
  case 0
  then show ?case by simp
next
  case (Suc j)
  let ?L = "\<lambda>l. nn_Linear fw (path, l) (if l = 0 then d_in else d_hidden)
                 (if l = int N - 1 then d_out else d_hidden) bias"
  have up: "map int [k..<N] = int k # map int [Suc k..<N]"
    using Suc.prems(1) by (simp add: upt_conv_Cons)
  have lx: "length x = (if int k = 0 then d_in else d_hidden)"
    using Suc.prems(2) by simp
  obtain y where y: "lin_call (?L (int k)) x = Inr y"
    and ly: "length y = (if int k = int N - 1 then d_out else d_hidden)"
    using conforming_Linear[OF fw lx] by blast
  show ?case
  proof (cases "Suc k = N")
    case True
    then have "int k = int N - 1" by linarith
    moreover have "map int [Suc k..<N] = []" using True by simp
    ultimately show ?thesis using up y ly by simp
  next
    case False
    then have lt: "Suc k < N" using Suc.prems(1) by linarith
    then have nl: "int k \<noteq> int N - 1" by linarith
    have up2: "map int [Suc k..<N] = int (Suc k) # map int [Suc (Suc k)..<N]"
      using lt by (simp add: upt_conv_Cons)
    have "j = N - Suc k" using Suc.hyps(2) by linarith
    moreover have "length (relu y) = (if Suc k = 0 then d_in else d_hidden)"
      using ly nl by simp
    ultimately obtain z where
      "MLP_spec (map ?L (map int [Suc k..<N])) (relu y) = Inr z" "length z = d_out"
      using Suc.hyps(1)[of "Suc k" "relu y"] lt by blast
    then show ?thesis
      unfolding up using y up2 by simp
  qed
qed

lemma MLP_init_forward_ok:
  assumes "conforming fw" "1 \<le> n" "length x = d_in"
  shows "\<exists>y. MLP_forward (MLP_init fw path d_in d_out d_hidden n bias) x = Inr y \<and>
             length y = d_out"
proof -
  have n: "int (nat n) = n" "0 < nat n" using assms(2) by simp_all
  have "MLP_forward (MLP_init fw path d_in d_out d_hidden n bias) x =
        MLP_spec (net (MLP_init fw path d_in d_out d_hidden n bias)) x"
    by (rule MLP_forward_spec) simp
  moreover have "\<exists>y. MLP_spec (net (MLP_init fw path d_in d_out d_hidden n bias)) x = Inr y \<and>
                     length y = d_out"
    using MLP_spec_layers_ok[OF assms(1), of 0 "nat n" x d_in d_hidden path d_out bias]
      n assms(3)
    by (simp add: MLP_init_def py_range_def)
  ultimately show ?thesis by simp
qed

lemma HashEncoder_init_forward_ok:
  assumes "conforming fw" "1 \<le> n" "input_dim = int (length x)"
  shows "\<exists>y. HashEncoder_forward
               (HashEncoder_init fw path input_dim level_dim num_levels log2_hashmap_size
                  desired_resolution output_dim n hidden_dim) x bnd = Inr y \<and>
             length y = output_dim"
proof -
  let ?kw = "[(''input_dim'', KInt input_dim), (''level_dim'', KInt level_dim),
              (''num_levels'', KInt num_levels),
              (''log2_hashmap_size'', KInt log2_hashmap_size),
              (''desired_resolution'', KInt desired_resolution),
              (''interpolation'', KStr ''linear'')]"
  let ?g = "get_encoder fw (path @ ''.encoder'') ''tiledgrid'' ?kw"
  have "map_of ?kw ''input_dim'' = Some (KInt (int (length x)))" using assms(3) by simp
  then obtain e where e: "enc_call (fst ?g) x (Some bnd) = Inr e" and le: "length e = snd ?g"
    using conforming_encoder[OF assms(1) _ refl] by blast
  obtain y where "MLP_forward (MLP_init fw (path @ ''.mlp'') (snd ?g) output_dim hidden_dim n False) e
      = Inr y" "length y = output_dim"
    using MLP_init_forward_ok[OF assms(1,2) le] by blast
  then show ?thesis
    using e by (simp add: HashEncoder_forward_def HashEncoder_init_def case_prod_beta)
qed

lemma NeRFNetwork_init_spatial:
  "grid (NeRFNetwork_init fw options) = HashEncoder_init fw ''grid'' 3 2 16 19 512 8 2 64"
  "planeXY (NeRFNetwork_init fw options) = HashEncoder_init fw ''planeXY'' 2 2 16 19 2048 8 2 64"
  "planeYZ (NeRFNetwork_init fw options) = HashEncoder_init fw ''planeYZ'' 2 2 16 19 2048 8 2 64"
  "planeXZ (NeRFNetwork_init fw options) = HashEncoder_init fw ''planeXZ'' 2 2 16 19 2048 8 2 64"
  "opt (NeRFNetwork_init fw options) = options"
  "bound (NeRFNetwork_init fw options) = opt_bound options"
  by (simp_all add: NeRFNetwork_init_def NeRFRenderer_bound_def case_prod_beta)

lemma length_rows [simp]:
  "length (row3 x) = 3" "length (index_01 x) = 2" "length (index_12 x) = 2"
  "length (index_02 x) = 2"
  by (simp_all add: row3_def index_01_def index_12_def index_02_def split: prod.split)

lemma tadd_same_length:
  assumes "length a = length b"
  shows "tadd a b = Inr (map (\<lambda>i. a ! i + b ! i) [0..<length a])"
proof -
  have "map (\<lambda>(u, v). u + v) (zip a b) = map (\<lambda>i. a ! i + b ! i) [0..<length a]"
    using assms by (intro nth_equalityI) simp_all
  then show ?thesis using assms by (simp add: tadd_def)
qed

lemma sum4_same_length:
  assumes "length b = length a" "length c = length a" "length e = length a"
  shows "sum4 (a, b, c, e) = Inr (map (\<lambda>i. a ! i + b ! i + c ! i + e ! i) [0..<length a])"
  using assms by (simp add: sum4_def tadd_same_length)

lemma common_forward_ok:
  assumes fw: "conforming fw"
  shows "\<exists>fg f01 f12 f02.
     common_forward (NeRFNetwork_init fw options) x = Inr (fg, f01, f12, f02) \<and>
     length fg = 8 \<and> length f01 = 8 \<and> length f12 = 8 \<and> length f02 = 8"
proof -
  let ?b = "opt_bound options"
  have "\<exists>y. HashEncoder_forward (HashEncoder_init fw ''grid'' 3 2 16 19 512 8 2 64)
       (row3 x) ?b = Inr y \<and> length y = 8"
    by (rule HashEncoder_init_forward_ok[OF fw]) simp_all
  then obtain fg where 1: "HashEncoder_forward (HashEncoder_init fw ''grid'' 3 2 16 19 512 8 2 64)
       (row3 x) ?b = Inr fg" "length fg = 8"
    by blast
  have "\<exists>y. HashEncoder_forward (HashEncoder_init fw ''planeXY'' 2 2 16 19 2048 8 2 64)
       (index_01 x) ?b = Inr y \<and> length y = 8"
    by (rule HashEncoder_init_forward_ok[OF fw]) simp_all
  then obtain f01 where 2: "HashEncoder_forward (HashEncoder_init fw ''planeXY'' 2 2 16 19 2048 8 2 64)
       (index_01 x) ?b = Inr f01" "length f01 = 8"
    by blast
  have "\<exists>y. HashEncoder_forward (HashEncoder_init fw ''planeYZ'' 2 2 16 19 2048 8 2 64)
       (index_12 x) ?b = Inr y \<and> length y = 8"
    by (rule HashEncoder_init_forward_ok[OF fw]) simp_all
  then obtain f12 where 3: "HashEncoder_forward (HashEncoder_init fw ''planeYZ'' 2 2 16 19 2048 8 2 64)
       (index_12 x) ?b = Inr f12" "length f12 = 8"
    by blast
  have "\<exists>y. HashEncoder_forward (HashEncoder_init fw ''planeXZ'' 2 2 16 19 2048 8 2 64)
       (index_02 x) ?b = Inr y \<and> length y = 8"
    by (rule HashEncoder_init_forward_ok[OF fw]) simp_all
  then obtain f02 where 4: "HashEncoder_forward (HashEncoder_init fw ''planeXZ'' 2 2 16 19 2048 8 2 64)
       (index_02 x) ?b = Inr f02" "length f02 = 8"
    by blast
  show ?thesis
    using 1 2 3 4 by (simp add: common_forward_def NeRFNetwork_init_spatial)
qed

lemma features_ok:
  assumes fw: "conforming fw"
  shows "\<exists>fg f01 f12 f02.
     common_forward (NeRFNetwork_init fw options) x = Inr (fg, f01, f12, f02) \<and>
     length fg = 8 \<and> length f01 = 8 \<and> length f12 = 8 \<and> length f02 = 8 \<and>
     features (NeRFNetwork_init fw options) x =
       Inr (map (\<lambda>i. fg ! i + f01 ! i + f12 ! i + f02 ! i) [0..<8])"
proof -
  obtain fg f01 f12 f02 where
    c: "common_forward (NeRFNetwork_init fw options) x = Inr (fg, f01, f12, f02)"
    and l: "length fg = 8" "length f01 = 8" "length f12 = 8" "length f02 = 8"
    using common_forward_ok[OF fw] by blast
  have "sum4 (fg, f01, f12, f02) = Inr (map (\<lambda>i. fg ! i + f01 ! i + f12 ! i + f02 ! i) [0..<8])"
    using sum4_same_length[of f01 fg f12 f02] l by simp
  then show ?thesis using c l by (simp add: features_def)
qed

section \<open>forward\<close>

lemma NeRFNetwork_init_view:
  "view_encoder (NeRFNetwork_init fw options) =
     fst (get_encoder fw ''view_encoder'' ''frequency''
            [(''input_dim'', KInt 3), (''multires'', KInt 4)])"
  "view_in_dim (NeRFNetwork_init fw options) =
     snd (get_encoder fw ''view_encoder'' ''frequency''
            [(''input_dim'', KInt 3), (''multires'', KInt 4)])"
  "view_mlp (NeRFNetwork_init fw options) =
     MLP_init fw ''view_mlp''
       (3 + 4 + view_in_dim (NeRFNetwork_init fw options)) 3 16 3 True"
  by (simp_all add: NeRFNetwork_init_def case_prod_beta)

lemma forward_features:
  "forward n x d shading =
     and_then (features n x) (\<lambda>f.
     and_then (getitem f 0) (\<lambda>f0.
     and_then (enc_call (view_encoder n) (row3 d) None) (\<lambda>d1.
       if shading = ''diffuse''
       then Inr [(''sigma'', Some (Sc (trunc_exp (f0 - 1)))),
                 (''color'', Some (Vec (map sigmoid (slice f 1 4)))),
                 (''specular'', None)]
       else
         and_then (MLP_forward (view_mlp n)
                     (cat [map sigmoid (slice f 1 4), map sigmoid (slice_from f 4), d1]))
           (\<lambda>s.
             if shading = ''specular''
             then Inr [(''sigma'', Some (Sc (trunc_exp (f0 - 1)))),
                       (''color'', Some (Vec (map sigmoid s))),
                       (''specular'', Some (Vec (map sigmoid s)))]
             else
               and_then (tadd (map sigmoid s) (map sigmoid (slice f 1 4))) (\<lambda>sd.
                 Inr [(''sigma'', Some (Sc (trunc_exp (f0 - 1)))),
                      (''color'', Some (Vec (map (\<lambda>v. clamp v 0 1) sd))),
                      (''specular'', Some (Vec (map sigmoid s)))])))))"
  unfolding forward_def features_def Let_def
  by (cases "common_forward n x") simp_all

lemma density_features:
  "density_guard n proposal = Inr False \<Longrightarrow>
   density n x proposal =
     and_then (features n x) (\<lambda>f.
     and_then (getitem f 0) (\<lambda>f0. Inr [(''sigma'', Some (Sc (trunc_exp (f0 - 1))))]))"
  unfolding density_def features_def
  by (cases "common_forward n x") simp_all

lemma view_path_ok:
  assumes fw: "conforming fw" and lf: "length f = 8"
  shows "\<exists>d1 s.
     enc_call (view_encoder (NeRFNetwork_init fw options)) (row3 d) None = Inr d1 \<and>
     MLP_forward (view_mlp (NeRFNetwork_init fw options))
       (cat [map sigmoid (slice f 1 4), map sigmoid (slice_from f 4), d1]) = Inr s \<and>
     length s = 3"
proof -
  let ?n = "NeRFNetwork_init fw options"
  let ?kw = "[(''input_dim'', KInt 3), (''multires'', KInt 4)]"
  have "map_of ?kw ''input_dim'' = Some (KInt (int (length (row3 d))))" by simp
  then obtain d1 where d1: "enc_call (view_encoder ?n) (row3 d) None = Inr d1"
    and ld: "length d1 = view_in_dim ?n"
    using conforming_encoder[OF fw _ refl, of ?kw "row3 d" "''view_encoder''" "''frequency''" None]
    by (auto simp: NeRFNetwork_init_view)
  have "length (cat [map sigmoid (slice f 1 4), map sigmoid (slice_from f 4), d1])
        = 3 + 4 + view_in_dim ?n"
    using lf ld by (simp add: cat_def slice_def slice_from_def)
  then obtain s where "MLP_forward (view_mlp ?n)
       (cat [map sigmoid (slice f 1 4), map sigmoid (slice_from f 4), d1]) = Inr s" "length s = 3"
    using MLP_init_forward_ok[OF fw, of 3 _ "3 + 4 + view_in_dim ?n" "''view_mlp''" 3 16 True]
    by (auto simp: NeRFNetwork_init_view(3))
  then show ?thesis using d1 by blast
qed

lemma forward_ok:
  assumes fw: "conforming fw"
  shows "\<exists>f d1 s.
     features (NeRFNetwork_init fw options) x = Inr f \<and> length f = 8 \<and>
     enc_call (view_encoder (NeRFNetwork_init fw options)) (row3 d) None = Inr d1 \<and>
     MLP_forward (view_mlp (NeRFNetwork_init fw options))
       (cat [map sigmoid (slice f 1 4), map sigmoid (slice_from f 4), d1]) = Inr s \<and>
     length s = 3 \<and>
     forward (NeRFNetwork_init fw options) x d shading =
       Inr [(''sigma'', Some (Sc (trunc_exp (f ! 0 - 1)))),
            (''color'',
               Some (Vec (if shading = ''diffuse'' then map sigmoid (slice f 1 4)
                          else if shading = ''specular'' then map sigmoid s
                          else map (\<lambda>v. clamp v 0 1)
                                 (map (\<lambda>i. map sigmoid s ! i + map sigmoid (slice f 1 4) ! i)
                                    [0..<3])))),
            (''specular'', if shading = ''diffuse'' then None else Some (Vec (map sigmoid s)))]"
proof -
  let ?n = "NeRFNetwork_init fw options"
  obtain f where f: "features ?n x = Inr f" and lf: "length f = 8"
    using features_ok[OF fw, of options x] by auto
  obtain d1 s where d1: "enc_call (view_encoder ?n) (row3 d) None = Inr d1"
    and s: "MLP_forward (view_mlp ?n)
       (cat [map sigmoid (slice f 1 4), map sigmoid (slice_from f 4), d1]) = Inr s"
    and ls: "length s = 3"
    using view_path_ok[OF fw lf] by blast
  have g: "getitem f 0 = Inr (f ! 0)" using lf by (simp add: getitem_def)
  have "length (map sigmoid s) = length (map sigmoid (slice f 1 4))"
    using ls lf by (simp add: slice_def)
  then have t: "tadd (map sigmoid s) (map sigmoid (slice f 1 4)) =
      Inr (map (\<lambda>i. map sigmoid s ! i + map sigmoid (slice f 1 4) ! i) [0..<3])"
    using tadd_same_length[of "map sigmoid s" "map sigmoid (slice f 1 4)"] ls by simp
  have "forward ?n x d shading =
       Inr [(''sigma'', Some (Sc (trunc_exp (f ! 0 - 1)))),
            (''color'',
               Some (Vec (if shading = ''diffuse'' then map sigmoid (slice f 1 4)
                          else if shading = ''specular'' then map sigmoid s
                          else map (\<lambda>v. clamp v 0 1)
                                 (map (\<lambda>i. map sigmoid s ! i + map sigmoid (slice f 1 4) ! i)
                                    [0..<3])))),
            (''specular'', if shading = ''diffuse'' then None else Some (Vec (map sigmoid s)))]"
    unfolding forward_features f using g d1 s t by simp
  then show ?thesis using f lf d1 s ls by blast
qed

lemma conforming_example: "conforming example_torch"
  by (simp add: conforming_def example_torch_def)

section \<open>density\<close>

lemma NeRFNetwork_init_prop:
  "prop_encoders (NeRFNetwork_init fw options) =
     (if \<not> cuda_ray options
      then Some [fst (get_encoder fw ''prop_encoders.0'' ''hashgrid''
                    [(''input_dim'', KInt 3), (''level_dim'', KInt 2), (''num_levels'', KInt 5),
                     (''log2_hashmap_size'', KInt 17), (''desired_resolution'', KInt 128)]),
                 fst (get_encoder fw ''prop_encoders.1'' ''hashgrid''
                    [(''input_dim'', KInt 3), (''level_dim'', KInt 2), (''num_levels'', KInt 5),
                     (''log2_hashmap_size'', KInt 17), (''desired_resolution'', KInt 256)])]
      else None)"
  "prop_mlp (NeRFNetwork_init fw options) =
     (if \<not> cuda_ray options
      then Some [MLP_init fw ''prop_mlp.0''
                   (snd (get_encoder fw ''prop_encoders.0'' ''hashgrid''
                    [(''input_dim'', KInt 3), (''level_dim'', KInt 2), (''num_levels'', KInt 5),
                     (''log2_hashmap_size'', KInt 17), (''desired_resolution'', KInt 128)]))
                   1 16 2 False,
                 MLP_init fw ''prop_mlp.1''
                   (snd (get_encoder fw ''prop_encoders.1'' ''hashgrid''
                    [(''input_dim'', KInt 3), (''level_dim'', KInt 2), (''num_levels'', KInt 5),
                     (''log2_hashmap_size'', KInt 17), (''desired_resolution'', KInt 256)]))
                   1 16 2 False]
      else None)"
  by (simp_all add: NeRFNetwork_init_def case_prod_beta)

lemma density_guard_cases:
  "density_guard n proposal =
     (if proposal < 0 then Inr False
      else case prop_encoders n of None \<Rightarrow> Inl AttributeError
           | Some es \<Rightarrow> Inr (proposal < int (length es)))"
  by (simp add: density_guard_def get_prop_encoders_def split: option.split)

lemma density_full_ok:
  assumes fw: "conforming fw" and g: "density_guard (NeRFNetwork_init fw options) proposal = Inr False"
  shows "\<exists>fg f01 f12 f02.
     common_forward (NeRFNetwork_init fw options) x = Inr (fg, f01, f12, f02) \<and>
     length fg = 8 \<and> length f01 = 8 \<and> length f12 = 8 \<and> length f02 = 8 \<and>
     density (NeRFNetwork_init fw options) x proposal =
       Inr [(''sigma'', Some (Sc (trunc_exp (fg ! 0 + f01 ! 0 + f12 ! 0 + f02 ! 0 - 1))))]"
proof -
  let ?n = "NeRFNetwork_init fw options"
  obtain fg f01 f12 f02 where
    c: "common_forward ?n x = Inr (fg, f01, f12, f02)"
    and l: "length fg = 8" "length f01 = 8" "length f12 = 8" "length f02 = 8"
    and f: "features ?n x = Inr (map (\<lambda>i. fg ! i + f01 ! i + f12 ! i + f02 ! i) [0..<8])"
    using features_ok[OF fw, of options x] by blast
  have "density ?n x proposal =
       Inr [(''sigma'', Some (Sc (trunc_exp (fg ! 0 + f01 ! 0 + f12 ! 0 + f02 ! 0 - 1))))]"
    unfolding density_features[OF g] f by (simp add: getitem_def)
  then show ?thesis using c l by blast
qed

lemma density_prop_ok:
  assumes fw: "conforming fw" and nc: "\<not> cuda_ray options"
    and p: "0 \<le> proposal" "proposal < 2"
  shows "\<exists>es ms h y.
     prop_encoders (NeRFNetwork_init fw options) = Some es \<and> length es = 2 \<and>
     prop_mlp (NeRFNetwork_init fw options) = Some ms \<and> length ms = 2 \<and>
     enc_call (es ! nat proposal) (row3 x) (Some (bound (NeRFNetwork_init fw options))) = Inr h \<and>
     MLP_forward (ms ! nat proposal) h = Inr [y] \<and>
     density (NeRFNetwork_init fw options) x proposal =
       Inr [(''sigma'', Some (Sc (trunc_exp (y - 1))))]"
proof -
  let ?n = "NeRFNetwork_init fw options"
  let ?kw = "\<lambda>r. [(''input_dim'', KInt 3), (''level_dim'', KInt 2), (''num_levels'', KInt 5),
                 (''log2_hashmap_size'', KInt 17), (''desired_resolution'', KInt r)]"
  let ?path = "if proposal = 0 then ''prop_encoders.0'' else ''prop_encoders.1''"
  let ?mpath = "if proposal = 0 then ''prop_mlp.0'' else ''prop_mlp.1''"
  let ?res = "if proposal = 0 then 128 else 256 :: int"
  let ?g = "get_encoder fw ?path ''hashgrid'' (?kw ?res)"
  obtain es ms where es: "prop_encoders ?n = Some es" and ms: "prop_mlp ?n = Some ms"
    and les: "length es = 2" and lms: "length ms = 2"
    and e: "es ! nat proposal = fst ?g"
    and m: "ms ! nat proposal = MLP_init fw ?mpath (snd ?g) 1 16 2 False"
  proof (cases "proposal = 0")
    case True
    then show ?thesis using that nc by (simp add: NeRFNetwork_init_prop)
  next
    case False
    then have "nat proposal = 1" using p by linarith
    then show ?thesis using that nc False by (simp add: NeRFNetwork_init_prop)
  qed
  have "map_of (?kw ?res) ''input_dim'' = Some (KInt (int (length (row3 x))))" by simp
  then obtain h where h: "enc_call (fst ?g) (row3 x) (Some (bound ?n)) = Inr h"
    and lh: "length h = snd ?g"
    using conforming_encoder[OF fw _ refl] by blast
  obtain y0 where y0: "MLP_forward (MLP_init fw ?mpath (snd ?g) 1 16 2 False) h = Inr y0"
    and ly: "length y0 = 1"
    using MLP_init_forward_ok[OF fw _ lh, of 2 ?mpath 1 16 False] by auto
  obtain y where y: "y0 = [y]" using ly by (cases y0) auto
  have guard: "density_guard ?n proposal = Inr True"
    using p es les by (simp add: density_guard_cases)
  have gi: "ModuleList_getitem ms proposal = Inr (ms ! nat proposal)"
    "ModuleList_getitem es proposal = Inr (es ! nat proposal)"
    using p les lms by (simp_all add: ModuleList_getitem_def)
  have "density ?n x proposal = Inr [(''sigma'', Some (Sc (trunc_exp (y - 1))))]"
    unfolding density_def guard
    using es ms gi e m h y0 y
    by (simp add: get_prop_mlp_def get_prop_encoders_def squeeze_last_def)
  then show ?thesis using es ms les lms e m h y0 y by auto
qed

text \<open>
  C1, as amended. If the network is constructed with \<^verbatim>\<open>cuda_ray\<close> true, then
  \<^verbatim>\<open>prop_encoders\<close> is never created, and for every input \<open>x\<close> the call
  \<^verbatim>\<open>density(x, proposal)\<close> with any non-negative \<open>proposal\<close> raises an attribute error.
\<close>

theorem density_cuda_ray_attribute_error:
  assumes "cuda_ray options" and "0 \<le> proposal"
  shows "prop_encoders (NeRFNetwork_init fw options) = None \<and>
         density (NeRFNetwork_init fw options) x proposal = Inl AttributeError"
  using assms by (simp add: NeRFNetwork_init_prop density_def density_guard_cases)

text \<open>The amended C1 at \<^verbatim>\<open>proposal = 0\<close>.\<close>

theorem density_cuda_ray_attribute_error_witness:
  "cuda_ray \<lparr> cuda_ray = True, opt_bound = 1 \<rparr> \<and> (0::int) \<le> 0 \<and>
   prop_encoders (NeRFNetwork_init example_torch \<lparr> cuda_ray = True, opt_bound = 1 \<rparr>) = None \<and>
   density (NeRFNetwork_init example_torch \<lparr> cuda_ray = True, opt_bound = 1 \<rparr>) (0, 0, 0) 0
     = Inl AttributeError"
  using density_cuda_ray_attribute_error
          [of "\<lparr> cuda_ray = True, opt_bound = 1 \<rparr>" 0 example_torch "(0, 0, 0)"]
  by simp

text \<open>
  C1 as stated fails: with \<^verbatim>\<open>cuda_ray\<close> true, the non-default \<^verbatim>\<open>proposal = -2\<close>
  raises nothing and returns the density of the full network.
\<close>

theorem density_cuda_ray_negative_counterexample:
  "cuda_ray \<lparr> cuda_ray = True, opt_bound = 1 \<rparr> \<and> (- 2 :: int) \<noteq> - 1 \<and>
   density (NeRFNetwork_init example_torch \<lparr> cuda_ray = True, opt_bound = 1 \<rparr>) (0, 0, 0) (- 2)
     = Inr [(''sigma'', Some (Sc (exp (- 1))))] \<and>
   density (NeRFNetwork_init example_torch \<lparr> cuda_ray = True, opt_bound = 1 \<rparr>) (0, 0, 0) (- 2)
     \<noteq> Inl AttributeError"
  by (simp add: density_def density_guard_def common_forward_def NeRFNetwork_init_spatial NeRFNetwork_init_view NeRFNetwork_init_prop
     HashEncoder_init_def HashEncoder_forward_def MLP_init_def MLP_forward_def py_range_def
     example_torch_def NeRFRenderer_bound_def row3_def index_01_def index_12_def index_02_def
     sum4_def tadd_def getitem_def trunc_exp_def relu_def ModuleList_getitem_def upt_conv_Cons
     sum_list_replicate)

section \<open>MLP.forward and get_params\<close>

text \<open>
  C6. Under the precondition \<^verbatim>\<open>num_layers >= 1\<close>, an MLP holds exactly
  \<^verbatim>\<open>num_layers\<close> linear layers and \<^verbatim>\<open>MLP.forward\<close> applies them in order with a
  ReLU after every layer except the last (the function \<open>MLP_spec\<close>); with
  \<^verbatim>\<open>num_layers == 1\<close> it is the single linear transform, with no activation.
\<close>

theorem MLP_forward_layers:
  assumes "1 \<le> n"
  shows "length (net (MLP_init fw path d_in d_out d_hidden n bias)) = nat n \<and>
         MLP_forward (MLP_init fw path d_in d_out d_hidden n bias) x =
           MLP_spec (net (MLP_init fw path d_in d_out d_hidden n bias)) x \<and>
         (n = 1 \<longrightarrow> MLP_forward (MLP_init fw path d_in d_out d_hidden n bias) x =
                      lin_call (nn_Linear fw (path, 0) d_in d_out bias) x)"
proof -
  let ?m = "MLP_init fw path d_in d_out d_hidden n bias"
  have len: "length (net ?m) = nat (num_layers ?m)" by simp
  have spec: "MLP_forward ?m x = MLP_spec (net ?m) x"
    by (rule MLP_forward_spec[OF len])
  have "MLP_forward ?m x = lin_call (nn_Linear fw (path, 0) d_in d_out bias) x" if "n = 1"
  proof -
    have "net ?m = [nn_Linear fw (path, 0) d_in d_out bias]"
      using that by (simp add: MLP_init_def py_range_def)
    then show ?thesis using spec by simp
  qed
  then show ?thesis using spec by simp
qed

text \<open>C6 at \<^verbatim>\<open>num_layers = 1\<close>: one layer, applied to the row \<open>[1, 2]\<close>.\<close>

theorem MLP_forward_layers_witness:
  "(1::int) \<le> 1 \<and>
   length (net (MLP_init example_torch ''mlp'' 2 1 16 1 False)) = 1 \<and>
   MLP_forward (MLP_init example_torch ''mlp'' 2 1 16 1 False) [1, 2] = Inr [3]"
  using MLP_forward_layers[of 1 example_torch "''mlp''" 2 1 16 False "[1, 2]"]
  by (simp add: example_torch_def MLP_init_def py_range_def)

text \<open>
  C5. \<^verbatim>\<open>get_params(lr)\<close> returns parameter groups that all carry the learning rate
  \<^verbatim>\<open>lr\<close>; the first five are the parameters of \<^verbatim>\<open>grid\<close>, \<^verbatim>\<open>planeXY\<close>,
  \<^verbatim>\<open>planeYZ\<close>, \<^verbatim>\<open>planeXZ\<close> and \<^verbatim>\<open>view_mlp\<close>; the groups of the proposal
  encoders and of the proposal MLPs follow if and only if \<^verbatim>\<open>cuda_ray\<close> was false at
  construction.
\<close>

theorem get_params_groups:
  "\<exists>gs. get_params (NeRFNetwork_init fw options) rate = Inr gs \<and>
        list_all (\<lambda>g. lr g = rate) gs \<and>
        map params (take 5 gs) =
          [HashEncoder_parameters (grid (NeRFNetwork_init fw options)),
           HashEncoder_parameters (planeXY (NeRFNetwork_init fw options)),
           HashEncoder_parameters (planeYZ (NeRFNetwork_init fw options)),
           HashEncoder_parameters (planeXZ (NeRFNetwork_init fw options)),
           MLP_parameters (view_mlp (NeRFNetwork_init fw options))] \<and>
        (if cuda_ray options
         then length gs = 5 \<and>
              prop_encoders (NeRFNetwork_init fw options) = None \<and>
              prop_mlp (NeRFNetwork_init fw options) = None
         else \<exists>es ms.
              prop_encoders (NeRFNetwork_init fw options) = Some es \<and>
              prop_mlp (NeRFNetwork_init fw options) = Some ms \<and>
              map params (drop 5 gs) =
                [concat (map enc_parameters es), concat (map MLP_parameters ms)])"
proof -
  let ?n = "NeRFNetwork_init fw options"
  let ?base = "[\<lparr> params = HashEncoder_parameters (grid ?n), lr = rate \<rparr>,
                \<lparr> params = HashEncoder_parameters (planeXY ?n), lr = rate \<rparr>,
                \<lparr> params = HashEncoder_parameters (planeYZ ?n), lr = rate \<rparr>,
                \<lparr> params = HashEncoder_parameters (planeXZ ?n), lr = rate \<rparr>,
                \<lparr> params = MLP_parameters (view_mlp ?n), lr = rate \<rparr>]"
  show ?thesis
  proof (cases "cuda_ray options")
    case True
    then have "get_params ?n rate = Inr ?base"
      by (simp add: get_params_def NeRFNetwork_init_spatial)
    then show ?thesis using True by (simp add: NeRFNetwork_init_prop)
  next
    case False
    then obtain es ms where es: "prop_encoders ?n = Some es" and ms: "prop_mlp ?n = Some ms"
      by (simp add: NeRFNetwork_init_prop)
    have "get_params ?n rate =
        Inr (?base @ [\<lparr> params = concat (map enc_parameters es), lr = rate \<rparr>,
                      \<lparr> params = concat (map MLP_parameters ms), lr = rate \<rparr>])"
      using False es ms
      by (simp add: get_params_def get_prop_encoders_def get_prop_mlp_def
            NeRFNetwork_init_spatial)
    then show ?thesis using False es ms by simp
  qed
qed

text \<open>C5 on both kinds of network: seven groups without \<^verbatim>\<open>cuda_ray\<close>, five with it.\<close>

theorem get_params_groups_witness:
  "map lr (projr (get_params (NeRFNetwork_init example_torch \<lparr> cuda_ray = False, opt_bound = 1 \<rparr>)
                    (1 / 100))) = replicate 7 (1 / 100) \<and>
   map lr (projr (get_params (NeRFNetwork_init example_torch \<lparr> cuda_ray = True, opt_bound = 1 \<rparr>)
                    (1 / 100))) = replicate 5 (1 / 100)"
  using get_params_groups[of example_torch "\<lparr> cuda_ray = False, opt_bound = 1 \<rparr>" "1 / 100"]
  by (simp add: get_params_def get_prop_encoders_def get_prop_mlp_def
        NeRFNetwork_init_prop NeRFNetwork_init_spatial eval_nat_numeral)

section \<open>density outside the proposal networks, and sigma\<close>

lemma density_example_full:
  "proposal < 0 \<or> (\<not> cuda_ray options \<and> 2 \<le> proposal) \<Longrightarrow>
   density (NeRFNetwork_init example_torch options) (0, 0, 0) proposal =
     Inr [(''sigma'', Some (Sc (exp (- 1))))]"
  by (auto simp add: density_def density_guard_def get_prop_encoders_def common_forward_def
     NeRFNetwork_init_spatial NeRFNetwork_init_view NeRFNetwork_init_prop
     HashEncoder_init_def HashEncoder_forward_def MLP_init_def MLP_forward_def py_range_def
     example_torch_def NeRFRenderer_bound_def row3_def index_01_def index_12_def index_02_def
     sum4_def tadd_def getitem_def trunc_exp_def relu_def ModuleList_getitem_def upt_conv_Cons
     sum_list_replicate)

text \<open>
  C8. For every input \<open>x\<close> and every negative \<open>proposal\<close>, with or without
  \<^verbatim>\<open>cuda_ray\<close>, \<^verbatim>\<open>density\<close> does not depend on the attributes
  \<^verbatim>\<open>prop_encoders\<close> and \<^verbatim>\<open>prop_mlp\<close> (they may hold anything, or be missing): it
  takes the path of the full network and returns its density.
\<close>

theorem density_negative_proposal:
  assumes "conforming fw" and "proposal < 0"
  shows "(\<forall>pe pm. density (NeRFNetwork_init fw options\<lparr> prop_encoders := pe, prop_mlp := pm \<rparr>)
                      x proposal = density (NeRFNetwork_init fw options) x proposal) \<and>
         (\<exists>fg f01 f12 f02.
            common_forward (NeRFNetwork_init fw options) x = Inr (fg, f01, f12, f02) \<and>
            density (NeRFNetwork_init fw options) x proposal =
              Inr [(''sigma'', Some (Sc (trunc_exp (fg ! 0 + f01 ! 0 + f12 ! 0 + f02 ! 0 - 1))))])"
proof -
  let ?n = "NeRFNetwork_init fw options"
  have g: "density_guard ?n proposal = Inr False"
    using assms(2) by (simp add: density_guard_cases)
  have "density (?n\<lparr> prop_encoders := pe, prop_mlp := pm \<rparr>) x proposal = density ?n x proposal"
    for pe pm
    using assms(2)
    by (simp add: density_def density_guard_cases common_forward_def)
  then show ?thesis using density_full_ok[OF assms(1) g] by blast
qed

text \<open>C8 at \<^verbatim>\<open>proposal = -2\<close> on a network with \<^verbatim>\<open>cuda_ray\<close> true.\<close>

theorem density_negative_proposal_witness:
  "conforming example_torch \<and> (- 2 :: int) < 0 \<and>
   prop_encoders (NeRFNetwork_init example_torch \<lparr> cuda_ray = True, opt_bound = 1 \<rparr>) = None \<and>
   density (NeRFNetwork_init example_torch \<lparr> cuda_ray = True, opt_bound = 1 \<rparr>) (0, 0, 0) (- 2)
     = Inr [(''sigma'', Some (Sc (exp (- 1))))]"
  using density_negative_proposal
          [OF conforming_example, of "- 2" "\<lparr> cuda_ray = True, opt_bound = 1 \<rparr>" "(0, 0, 0)"]
        conforming_example
        density_example_full[of "- 2" "\<lparr> cuda_ray = True, opt_bound = 1 \<rparr>"]
  by (simp add: NeRFNetwork_init_prop)

text \<open>
  C9. When the network is constructed with \<^verbatim>\<open>cuda_ray\<close> false, exactly two proposal
  networks exist, and \<^verbatim>\<open>density(x, proposal)\<close> with \<^verbatim>\<open>proposal >= 2\<close> raises no
  error: it falls back to the full spatial path, returning
  \<^verbatim>\<open>sigma = trunc_exp(f[..., 0] - 1)\<close> for the sum \<open>f\<close> of the four spatial encoder
  outputs at \<open>x\<close>, which is the result of \<^verbatim>\<open>density(x, -1)\<close>.
\<close>

theorem density_out_of_range_proposal:
  assumes "conforming fw" and "\<not> cuda_ray options" and "2 \<le> proposal"
  shows "(\<exists>es ms. prop_encoders (NeRFNetwork_init fw options) = Some es \<and> length es = 2 \<and>
                  prop_mlp (NeRFNetwork_init fw options) = Some ms \<and> length ms = 2) \<and>
         density (NeRFNetwork_init fw options) x proposal =
           density (NeRFNetwork_init fw options) x (- 1) \<and>
         (\<exists>fg f01 f12 f02.
            common_forward (NeRFNetwork_init fw options) x = Inr (fg, f01, f12, f02) \<and>
            density (NeRFNetwork_init fw options) x proposal =
              Inr [(''sigma'', Some (Sc (trunc_exp (fg ! 0 + f01 ! 0 + f12 ! 0 + f02 ! 0 - 1))))])"
proof -
  let ?n = "NeRFNetwork_init fw options"
  have g: "density_guard ?n proposal = Inr False"
    using assms(2,3) by (simp add: density_guard_cases NeRFNetwork_init_prop)
  have g1: "density_guard ?n (- 1) = Inr False"
    by (simp add: density_guard_cases)
  have "density ?n x proposal = density ?n x (- 1)"
    unfolding density_features[OF g] density_features[OF g1] ..
  moreover have "\<exists>fg f01 f12 f02.
      common_forward ?n x = Inr (fg, f01, f12, f02) \<and>
      density ?n x proposal =
        Inr [(''sigma'', Some (Sc (trunc_exp (fg ! 0 + f01 ! 0 + f12 ! 0 + f02 ! 0 - 1))))]"
    using density_full_ok[OF assms(1) g, of x] by blast
  moreover have "\<exists>es ms. prop_encoders ?n = Some es \<and> length es = 2 \<and>
      prop_mlp ?n = Some ms \<and> length ms = 2"
    using assms(2) by (simp add: NeRFNetwork_init_prop)
  ultimately show ?thesis by blast
qed

text \<open>C9 at \<^verbatim>\<open>proposal = 2\<close>, the first index past the two proposal networks.\<close>

theorem density_out_of_range_proposal_witness:
  "conforming example_torch \<and> \<not> cuda_ray \<lparr> cuda_ray = False, opt_bound = 1 \<rparr> \<and> (2::int) \<le> 2 \<and>
   density (NeRFNetwork_init example_torch \<lparr> cuda_ray = False, opt_bound = 1 \<rparr>) (0, 0, 0) 2
     = density (NeRFNetwork_init example_torch \<lparr> cuda_ray = False, opt_bound = 1 \<rparr>) (0, 0, 0) (- 1) \<and>
   density (NeRFNetwork_init example_torch \<lparr> cuda_ray = False, opt_bound = 1 \<rparr>) (0, 0, 0) 2
     = Inr [(''sigma'', Some (Sc (exp (- 1))))]"
  using density_out_of_range_proposal
          [OF conforming_example, of "\<lparr> cuda_ray = False, opt_bound = 1 \<rparr>" 2 "(0, 0, 0)"]
        conforming_example
        density_example_full[of 2 "\<lparr> cuda_ray = False, opt_bound = 1 \<rparr>"]
  by simp

lemma forward_sigma_ok:
  assumes fw: "conforming fw"
  shows "\<exists>fg f01 f12 f02 c sp.
     common_forward (NeRFNetwork_init fw options) x = Inr (fg, f01, f12, f02) \<and>
     length fg = 8 \<and> length f01 = 8 \<and> length f12 = 8 \<and> length f02 = 8 \<and>
     forward (NeRFNetwork_init fw options) x d shading =
       Inr [(''sigma'', Some (Sc (trunc_exp (fg ! 0 + f01 ! 0 + f12 ! 0 + f02 ! 0 - 1)))),
            (''color'', c), (''specular'', sp)]"
proof -
  let ?n = "NeRFNetwork_init fw options"
  obtain fg f01 f12 f02 where
    c: "common_forward ?n x = Inr (fg, f01, f12, f02)"
    and l: "length fg = 8" "length f01 = 8" "length f12 = 8" "length f02 = 8"
    and f: "features ?n x = Inr (map (\<lambda>i. fg ! i + f01 ! i + f12 ! i + f02 ! i) [0..<8])"
    using features_ok[OF fw, of options x] by blast
  obtain f' c sp where f': "features ?n x = Inr f'"
    and v: "forward ?n x d shading =
       Inr [(''sigma'', Some (Sc (trunc_exp (f' ! 0 - 1)))), (''color'', c), (''specular'', sp)]"
    using forward_ok[OF fw, of options x d shading] by blast
  have "f' ! 0 = fg ! 0 + f01 ! 0 + f12 ! 0 + f02 ! 0"
    using f f' by auto
  then show ?thesis using c l v by auto
qed

lemma forward_example:
  "forward (NeRFNetwork_init example_torch options) (0, 0, 0) (0, 0, - 1) shading =
     Inr [(''sigma'', Some (Sc (exp (- 1)))),
          (''color'', Some (Vec (if shading = ''diffuse'' then [1 / 2, 1 / 2, 1 / 2]
                                 else if shading = ''specular'' then [1 / 2, 1 / 2, 1 / 2]
                                 else [1, 1, 1]))),
          (''specular'', if shading = ''diffuse'' then None
                         else Some (Vec [1 / 2, 1 / 2, 1 / 2]))]"
  by (simp add: forward_def common_forward_def NeRFNetwork_init_spatial NeRFNetwork_init_view NeRFNetwork_init_prop
     HashEncoder_init_def HashEncoder_forward_def MLP_init_def MLP_forward_def py_range_def
     example_torch_def NeRFRenderer_bound_def row3_def index_01_def index_12_def index_02_def
     sum4_def tadd_def getitem_def trunc_exp_def relu_def ModuleList_getitem_def upt_conv_Cons
     sum_list_replicate sigmoid_def slice_def slice_from_def cat_def clamp_def Let_def
     eval_nat_numeral)

text \<open>
  C10. Whenever the guard of \<^verbatim>\<open>density\<close> is false (the proposal branch is not taken, as
  for \<^verbatim>\<open>proposal = -1\<close>), the sigma that \<^verbatim>\<open>density(x, proposal)\<close> returns is the
  sigma that \<^verbatim>\<open>forward(x, d, shading)\<close> returns, for every direction and shading: both
  are \<^verbatim>\<open>trunc_exp\<close> of channel 0 of the sum of the four spatial encoder outputs at
  \<open>x\<close>, minus 1.
\<close>

theorem density_sigma_eq_forward_sigma:
  assumes "conforming fw"
    and "density_guard (NeRFNetwork_init fw options) proposal = Inr False"
  shows "\<exists>fg f01 f12 f02 c sp.
     common_forward (NeRFNetwork_init fw options) x = Inr (fg, f01, f12, f02) \<and>
     density (NeRFNetwork_init fw options) x proposal =
       Inr [(''sigma'', Some (Sc (trunc_exp (fg ! 0 + f01 ! 0 + f12 ! 0 + f02 ! 0 - 1))))] \<and>
     forward (NeRFNetwork_init fw options) x d shading =
       Inr [(''sigma'', Some (Sc (trunc_exp (fg ! 0 + f01 ! 0 + f12 ! 0 + f02 ! 0 - 1)))),
            (''color'', c), (''specular'', sp)]"
proof -
  let ?n = "NeRFNetwork_init fw options"
  obtain fg f01 f12 f02 where
    c: "common_forward ?n x = Inr (fg, f01, f12, f02)"
    and dn: "density ?n x proposal =
       Inr [(''sigma'', Some (Sc (trunc_exp (fg ! 0 + f01 ! 0 + f12 ! 0 + f02 ! 0 - 1))))]"
    using density_full_ok[OF assms, of x] by blast
  obtain fg' f01' f12' f02' col sp where
    c': "common_forward ?n x = Inr (fg', f01', f12', f02')"
    and fo: "forward ?n x d shading =
       Inr [(''sigma'', Some (Sc (trunc_exp (fg' ! 0 + f01' ! 0 + f12' ! 0 + f02' ! 0 - 1)))),
            (''color'', col), (''specular'', sp)]"
    using forward_sigma_ok[OF assms(1), of options x d shading] by blast
  have "fg' = fg" "f01' = f01" "f12' = f12" "f02' = f02" using c c' by simp_all
  then show ?thesis using c dn fo by blast
qed

text \<open>C10 at \<^verbatim>\<open>proposal = -1\<close> and shading \<^verbatim>\<open>full\<close>: both sigmas are \<open>exp (- 1)\<close>.\<close>

theorem density_sigma_eq_forward_sigma_witness:
  "conforming example_torch \<and>
   density_guard (NeRFNetwork_init example_torch \<lparr> cuda_ray = False, opt_bound = 1 \<rparr>) (- 1)
     = Inr False \<and>
   map_of (projr (density (NeRFNetwork_init example_torch \<lparr> cuda_ray = False, opt_bound = 1 \<rparr>)
                    (0, 0, 0) (- 1))) ''sigma'' = Some (Some (Sc (exp (- 1)))) \<and>
   map_of (projr (forward (NeRFNetwork_init example_torch \<lparr> cuda_ray = False, opt_bound = 1 \<rparr>)
                    (0, 0, 0) (0, 0, - 1) ''full'')) ''sigma'' = Some (Some (Sc (exp (- 1))))"
  using density_sigma_eq_forward_sigma
          [OF conforming_example, of "\<lparr> cuda_ray = False, opt_bound = 1 \<rparr>" "- 1"
             "(0, 0, 0)" "(0, 0, - 1)" "''full''"]
        conforming_example
        density_example_full[of "- 1" "\<lparr> cuda_ray = False, opt_bound = 1 \<rparr>"]
        forward_example[of "\<lparr> cuda_ray = False, opt_bound = 1 \<rparr>" "''full''"]
  by (simp add: density_guard_cases)

text \<open>
  C4. For every input, the sigma that \<^verbatim>\<open>forward(x, d, shading)\<close> returns is
  \<^verbatim>\<open>trunc_exp(f[..., 0] - 1)\<close>, where \<open>f\<close> is the elementwise sum of the four spatial
  encoder outputs; it is non-negative, and it is monotonically non-decreasing as a function
  of the channel-0 feature value.
\<close>

theorem forward_sigma:
  assumes "conforming fw"
  shows "(\<exists>fg f01 f12 f02 c sp.
            common_forward (NeRFNetwork_init fw options) x = Inr (fg, f01, f12, f02) \<and>
            forward (NeRFNetwork_init fw options) x d shading =
              Inr [(''sigma'', Some (Sc (trunc_exp (fg ! 0 + f01 ! 0 + f12 ! 0 + f02 ! 0 - 1)))),
                   (''color'', c), (''specular'', sp)] \<and>
            0 \<le> trunc_exp (fg ! 0 + f01 ! 0 + f12 ! 0 + f02 ! 0 - 1)) \<and>
         mono (\<lambda>f0. trunc_exp (f0 - 1))"
proof -
  have "mono (\<lambda>f0. trunc_exp (f0 - 1))"
    by (rule monoI) (simp add: trunc_exp_def)
  moreover have "0 \<le> trunc_exp v" for v by (simp add: trunc_exp_def)
  ultimately show ?thesis
    using forward_sigma_ok[OF assms, of options x d shading] by blast
qed

text \<open>C4 on a concrete network: sigma is \<open>exp (- 1)\<close> where the feature row is zero.\<close>

theorem forward_sigma_witness:
  "conforming example_torch \<and>
   map_of (projr (forward (NeRFNetwork_init example_torch \<lparr> cuda_ray = True, opt_bound = 1 \<rparr>)
                    (0, 0, 0) (0, 0, - 1) ''full'')) ''sigma'' = Some (Some (Sc (exp (- 1)))) \<and>
   trunc_exp (0 - 1) \<le> trunc_exp (1 - 1)"
  using forward_sigma
          [OF conforming_example, of "\<lparr> cuda_ray = True, opt_bound = 1 \<rparr>"
             "(0, 0, 0)" "(0, 0, - 1)" "''full''"]
        conforming_example
        forward_example[of "\<lparr> cuda_ray = True, opt_bound = 1 \<rparr>" "''full''"]
  by (simp add: mono_def trunc_exp_def)

section \<open>Shading and the dispatch of density\<close>

lemma clamp_id: "0 \<le> v \<Longrightarrow> v \<le> 1 \<Longrightarrow> clamp v 0 1 = v"
  by (simp add: clamp_def)

lemma density_example_prop:
  "density (NeRFNetwork_init example_torch \<lparr> cuda_ray = False, opt_bound = 1 \<rparr>) (1, 0, 0) 0 =
     Inr [(''sigma'', Some (Sc (exp 63)))]"
  by (simp add: density_def density_guard_def get_prop_encoders_def get_prop_mlp_def
     NeRFNetwork_init_spatial NeRFNetwork_init_view NeRFNetwork_init_prop squeeze_last_def
     MLP_init_def MLP_forward_def py_range_def
     example_torch_def NeRFRenderer_bound_def row3_def
     trunc_exp_def relu_def ModuleList_getitem_def upt_conv_Cons
     sum_list_replicate)

text \<open>
  C3. For every input \<open>(x, d)\<close>: with shading \<^verbatim>\<open>diffuse\<close> the color is the diffuse
  color and specular is \<^verbatim>\<open>None\<close>; with shading \<^verbatim>\<open>specular\<close> the color is the
  sigmoid of the output of \<^verbatim>\<open>view_mlp\<close> over the concatenation of diffuse color,
  specular feature and encoded direction; with any other shading (\<^verbatim>\<open>full\<close>) the color is
  \<^verbatim>\<open>clamp(specular + diffuse, 0, 1)\<close>, which is the sum itself whenever the sum lies in
  \<open>[0, 1]\<close> in every channel.
\<close>

theorem forward_shading:
  assumes "conforming fw"
  shows "\<exists>f d1 s.
     features (NeRFNetwork_init fw options) x = Inr f \<and> length f = 8 \<and>
     enc_call (view_encoder (NeRFNetwork_init fw options)) (row3 d) None = Inr d1 \<and>
     MLP_forward (view_mlp (NeRFNetwork_init fw options))
       (cat [map sigmoid (slice f 1 4), map sigmoid (slice_from f 4), d1]) = Inr s \<and>
     length s = 3 \<and>
     (let sigma = Some (Sc (trunc_exp (f ! 0 - 1)));
          diffuse = map sigmoid (slice f 1 4);
          specular = map sigmoid s
      in forward (NeRFNetwork_init fw options) x d ''diffuse'' =
           Inr [(''sigma'', sigma), (''color'', Some (Vec diffuse)), (''specular'', None)] \<and>
         forward (NeRFNetwork_init fw options) x d ''specular'' =
           Inr [(''sigma'', sigma), (''color'', Some (Vec specular)),
                (''specular'', Some (Vec specular))] \<and>
         (\<forall>shading. shading \<noteq> ''diffuse'' \<and> shading \<noteq> ''specular'' \<longrightarrow>
            forward (NeRFNetwork_init fw options) x d shading =
              Inr [(''sigma'', sigma),
                   (''color'', Some (Vec (map (\<lambda>i. clamp (specular ! i + diffuse ! i) 0 1)
                                            [0..<3]))),
                   (''specular'', Some (Vec specular))]) \<and>
         ((\<forall>i<3. 0 \<le> specular ! i + diffuse ! i \<and> specular ! i + diffuse ! i \<le> 1) \<longrightarrow>
            map (\<lambda>i. clamp (specular ! i + diffuse ! i) 0 1) [0..<3] =
            map (\<lambda>i. specular ! i + diffuse ! i) [0..<3]))"
proof -
  let ?n = "NeRFNetwork_init fw options"
  obtain f d1 s where f: "features ?n x = Inr f" and lf: "length f = 8"
    and d1: "enc_call (view_encoder ?n) (row3 d) None = Inr d1"
    and s: "MLP_forward (view_mlp ?n)
       (cat [map sigmoid (slice f 1 4), map sigmoid (slice_from f 4), d1]) = Inr s"
    and ls: "length s = 3"
    using forward_ok[OF assms, of options x d "''diffuse''"] by blast
  have v: "forward ?n x d shading =
       Inr [(''sigma'', Some (Sc (trunc_exp (f ! 0 - 1)))),
            (''color'',
               Some (Vec (if shading = ''diffuse'' then map sigmoid (slice f 1 4)
                          else if shading = ''specular'' then map sigmoid s
                          else map (\<lambda>v. clamp v 0 1)
                                 (map (\<lambda>i. map sigmoid s ! i + map sigmoid (slice f 1 4) ! i)
                                    [0..<3])))),
            (''specular'', if shading = ''diffuse'' then None else Some (Vec (map sigmoid s)))]"
    for shading
    using forward_ok[OF assms, of options x d shading] f d1 s by auto
  have c: "map (\<lambda>i. clamp (map sigmoid s ! i + map sigmoid (slice f 1 4) ! i) 0 1) [0..<3] =
           map (\<lambda>i. map sigmoid s ! i + map sigmoid (slice f 1 4) ! i) [0..<3]"
    if "\<forall>i<3. 0 \<le> map sigmoid s ! i + map sigmoid (slice f 1 4) ! i \<and>
               map sigmoid s ! i + map sigmoid (slice f 1 4) ! i \<le> 1"
    using that by (intro map_cong refl clamp_id) auto
  show ?thesis
    apply (rule exI[of _ f], rule exI[of _ d1], rule exI[of _ s])
    unfolding Let_def
    using f lf d1 s ls v[of "''diffuse''"] v[of "''specular''"] v c
    by (simp add: comp_def)
qed

text \<open>
  C3 on a concrete network and input: the three shadings, with specular plus diffuse equal
  to 1 in every channel, inside \<open>[0, 1]\<close>.
\<close>

theorem forward_shading_witness:
  "conforming example_torch \<and> ''full'' \<noteq> ''diffuse'' \<and> ''full'' \<noteq> ''specular'' \<and>
   forward (NeRFNetwork_init example_torch \<lparr> cuda_ray = True, opt_bound = 1 \<rparr>)
       (0, 0, 0) (0, 0, - 1) ''diffuse'' =
     Inr [(''sigma'', Some (Sc (exp (- 1)))), (''color'', Some (Vec [1 / 2, 1 / 2, 1 / 2])),
          (''specular'', None)] \<and>
   forward (NeRFNetwork_init example_torch \<lparr> cuda_ray = True, opt_bound = 1 \<rparr>)
       (0, 0, 0) (0, 0, - 1) ''full'' =
     Inr [(''sigma'', Some (Sc (exp (- 1)))), (''color'', Some (Vec [1, 1, 1])),
          (''specular'', Some (Vec [1 / 2, 1 / 2, 1 / 2]))] \<and>
   list_all (\<lambda>i. 0 \<le> [1 / 2, 1 / 2, 1 / 2 :: real] ! i + [1 / 2, 1 / 2, 1 / 2] ! i \<and>
                  [1 / 2, 1 / 2, 1 / 2 :: real] ! i + [1 / 2, 1 / 2, 1 / 2] ! i \<le> 1) [0, 1, 2]"
  using forward_shading
          [OF conforming_example, of "\<lparr> cuda_ray = True, opt_bound = 1 \<rparr>"
             "(0, 0, 0)" "(0, 0, - 1)"]
        conforming_example
        forward_example[of "\<lparr> cuda_ray = True, opt_bound = 1 \<rparr>" "''full''"]
        forward_example[of "\<lparr> cuda_ray = True, opt_bound = 1 \<rparr>" "''diffuse''"]
  by simp

text \<open>
  C2, as amended. For every input \<open>x\<close> and every integer \<open>proposal\<close> that is negative
  or given to a network constructed with \<^verbatim>\<open>cuda_ray\<close> false, the guard of
  \<^verbatim>\<open>density\<close> has a value, true exactly if \<open>proposal\<close> is a valid index into the
  proposal networks (\<^verbatim>\<open>0 <= proposal < len(prop_encoders)\<close>). If it is true,
  \<^verbatim>\<open>density(x, proposal)\<close> returns only sigma, the \<^verbatim>\<open>trunc_exp\<close> of the squeezed
  output of the proposal MLP over the proposal encoder's output, minus 1. Otherwise it
  returns only \<^verbatim>\<open>sigma = trunc_exp(f[..., 0] - 1)\<close>, \<open>f\<close> the elementwise sum of the
  four spatial encoder outputs.
\<close>

theorem density_dispatch:
  assumes "conforming fw"
    and "proposal < 0 \<or> \<not> cuda_ray options"
  shows "\<exists>c. density_guard (NeRFNetwork_init fw options) proposal = Inr c \<and>
     (c \<longleftrightarrow> (\<exists>es. prop_encoders (NeRFNetwork_init fw options) = Some es \<and>
                      0 \<le> proposal \<and> proposal < int (length es))) \<and>
     (if c
      then \<exists>es ms h y.
        prop_encoders (NeRFNetwork_init fw options) = Some es \<and>
        prop_mlp (NeRFNetwork_init fw options) = Some ms \<and>
        enc_call (es ! nat proposal) (row3 x) (Some (bound (NeRFNetwork_init fw options))) = Inr h \<and>
        MLP_forward (ms ! nat proposal) h = Inr [y] \<and>
        density (NeRFNetwork_init fw options) x proposal =
          Inr [(''sigma'', Some (Sc (trunc_exp (y - 1))))]
      else \<exists>fg f01 f12 f02.
        common_forward (NeRFNetwork_init fw options) x = Inr (fg, f01, f12, f02) \<and>
        density (NeRFNetwork_init fw options) x proposal =
          Inr [(''sigma'', Some (Sc (trunc_exp (fg ! 0 + f01 ! 0 + f12 ! 0 + f02 ! 0 - 1))))])"
proof -
  let ?n = "NeRFNetwork_init fw options"
  have "\<exists>c. density_guard ?n proposal = Inr c"
  proof (cases "proposal < 0")
    case True
    then have "density_guard ?n proposal = Inr False" by (simp add: density_guard_cases)
    then show ?thesis ..
  next
    case False
    then have "\<not> cuda_ray options" using assms(2) by simp
    then have "density_guard ?n proposal = Inr (proposal < 2)"
      using False by (simp add: density_guard_cases NeRFNetwork_init_prop)
    then show ?thesis ..
  qed
  then obtain c where g: "density_guard ?n proposal = Inr c" ..
  have iff: "c \<longleftrightarrow> (\<exists>es. prop_encoders ?n = Some es \<and> 0 \<le> proposal \<and> proposal < int (length es))"
    using g by (auto simp: density_guard_cases split: if_splits option.splits)
  have "if c
      then \<exists>es ms h y.
        prop_encoders ?n = Some es \<and> prop_mlp ?n = Some ms \<and>
        enc_call (es ! nat proposal) (row3 x) (Some (bound ?n)) = Inr h \<and>
        MLP_forward (ms ! nat proposal) h = Inr [y] \<and>
        density ?n x proposal = Inr [(''sigma'', Some (Sc (trunc_exp (y - 1))))]
      else \<exists>fg f01 f12 f02.
        common_forward ?n x = Inr (fg, f01, f12, f02) \<and>
        density ?n x proposal =
          Inr [(''sigma'', Some (Sc (trunc_exp (fg ! 0 + f01 ! 0 + f12 ! 0 + f02 ! 0 - 1))))]"
  proof (cases c)
    case True
    then obtain es where es: "prop_encoders ?n = Some es" and p: "0 \<le> proposal"
      "proposal < int (length es)"
      using iff by blast
    have nc: "\<not> cuda_ray options" using es by (auto simp: NeRFNetwork_init_prop split: if_splits)
    then have "length es = 2" using es by (auto simp: NeRFNetwork_init_prop)
    then have "proposal < 2" using p by simp
    then show ?thesis
      using density_prop_ok[OF assms(1) nc p(1), of x] True by auto
  next
    case False
    then have "density_guard ?n proposal = Inr False" using g by simp
    then show ?thesis
      using density_full_ok[OF assms(1), of options proposal x] False by auto
  qed
  then show ?thesis using g iff by blast
qed

text \<open>C2 at the valid index 0 of a network with proposal networks.\<close>

theorem density_dispatch_witness:
  "conforming example_torch \<and> \<not> cuda_ray \<lparr> cuda_ray = False, opt_bound = 1 \<rparr> \<and>
   density_guard (NeRFNetwork_init example_torch \<lparr> cuda_ray = False, opt_bound = 1 \<rparr>) 0
     = Inr True \<and>
   density (NeRFNetwork_init example_torch \<lparr> cuda_ray = False, opt_bound = 1 \<rparr>) (1, 0, 0) 0
     = Inr [(''sigma'', Some (Sc (exp 63)))] \<and>
   map_of (projr (density (NeRFNetwork_init example_torch \<lparr> cuda_ray = False, opt_bound = 1 \<rparr>)
                    (1, 0, 0) 0)) ''color'' = None"
  using density_dispatch
          [OF conforming_example, of 0 "\<lparr> cuda_ray = False, opt_bound = 1 \<rparr>" "(1, 0, 0)"]
        conforming_example density_example_prop
  by (simp add: density_guard_cases NeRFNetwork_init_prop)

text \<open>
  C2 as stated fails: on a network constructed with \<^verbatim>\<open>cuda_ray\<close> true there are no
  proposal networks, so \<^verbatim>\<open>proposal = 1\<close> is not a valid index into them, and yet
  \<^verbatim>\<open>density(x, 1)\<close> returns no sigma: reading \<^verbatim>\<open>self.prop_encoders\<close> in the guard
  raises.
\<close>

theorem density_dispatch_counterexample:
  "prop_encoders (NeRFNetwork_init example_torch \<lparr> cuda_ray = True, opt_bound = 1 \<rparr>) = None \<and>
   prop_mlp (NeRFNetwork_init example_torch \<lparr> cuda_ray = True, opt_bound = 1 \<rparr>) = None \<and>
   density (NeRFNetwork_init example_torch \<lparr> cuda_ray = True, opt_bound = 1 \<rparr>) (1, 0, 0) 1
     = Inl AttributeError \<and>
   density (NeRFNetwork_init example_torch \<lparr> cuda_ray = True, opt_bound = 1 \<rparr>) (1, 0, 0) (- 1)
     = Inr [(''sigma'', Some (Sc (exp 767)))]"
  by (simp add: density_def density_guard_def get_prop_encoders_def common_forward_def
     NeRFNetwork_init_spatial NeRFNetwork_init_view NeRFNetwork_init_prop
     HashEncoder_init_def HashEncoder_forward_def MLP_init_def MLP_forward_def py_range_def
     example_torch_def row3_def index_01_def index_12_def index_02_def
     sum4_def tadd_def getitem_def trunc_exp_def relu_def ModuleList_getitem_def upt_conv_Cons
     sum_list_replicate)

section \<open>No hidden state\<close>

lemma extends_refl [simp]: "extends st st"
  by (simp add: extends_def)

lemma extends_trans: "extends a b \<Longrightarrow> extends b c \<Longrightarrow> extends a c"
  by (auto simp: extends_def)

lemma extends_alloc: "extends st (fst (alloc st v))"
  by (simp add: extends_def alloc_def nth_append)

lemma extends_alloc_relu: "extends st (relu_inplace (fst (alloc st v)) (snd (alloc st v)))"
  by (simp add: extends_def alloc_def relu_inplace_def nth_append)

lemma MLP_forward_loop_st_sound:
  "a < length st \<Longrightarrow>
   (case MLP_forward_loop_st m ls st a of
      Inl e \<Rightarrow> MLP_forward_loop m ls (st ! a) = Inl e
    | Inr (st', a') \<Rightarrow> MLP_forward_loop m ls (st ! a) = Inr (st' ! a') \<and>
                       a' < length st' \<and> extends st st')"
proof (induction ls arbitrary: st a)
  case Nil
  then show ?case by simp
next
  case (Cons l ls)
  show ?case
  proof (cases "ModuleList_getitem (net m) l")
    case (Inl e)
    then show ?thesis by simp
  next
    case (Inr layer)
    show ?thesis
    proof (cases "lin_call layer (st ! a)")
      case (Inl e)
      then show ?thesis using Inr by simp
    next
      case y: (Inr y)
      let ?st2 = "if l \<noteq> num_layers m - 1 then relu_inplace (st @ [y]) (length st) else st @ [y]"
      have ext: "extends st ?st2"
        using extends_alloc[of st y] extends_alloc_relu[of st y] by (simp add: alloc_def)
      have val: "?st2 ! length st = (if l \<noteq> num_layers m - 1 then relu y else y)"
        by (simp add: relu_inplace_def)
      have len: "length st < length ?st2" by (simp add: relu_inplace_def)
      have step_st: "MLP_forward_loop_st m (l # ls) st a =
          MLP_forward_loop_st m ls ?st2 (length st)"
        using Inr y by (simp add: alloc_def)
      have step: "MLP_forward_loop m (l # ls) (st ! a) =
          MLP_forward_loop m ls (?st2 ! length st)"
        using Inr y unfolding val by simp
      show ?thesis
        unfolding step_st step using Cons.IH[OF len] ext
        by (auto split: sum.splits intro: extends_trans)
    qed
  qed
qed

lemma extends_nth: "extends st st' \<Longrightarrow> b < length st \<Longrightarrow> st' ! b = st ! b"
  by (simp add: extends_def)

lemma extends_length: "extends st st' \<Longrightarrow> b < length st \<Longrightarrow> b < length st'"
  by (simp add: extends_def)

lemma extends_append [simp]: "extends st (st @ [v])"
  by (simp add: extends_def nth_append)

lemma MLP_forward_st_sound:
  "a < length st \<Longrightarrow>
   (case MLP_forward_st m st a of
      Inl e \<Rightarrow> MLP_forward m (st ! a) = Inl e
    | Inr (st', a') \<Rightarrow> MLP_forward m (st ! a) = Inr (st' ! a') \<and>
                       a' < length st' \<and> extends st st')"
  unfolding MLP_forward_st_def MLP_forward_def by (rule MLP_forward_loop_st_sound)

lemma HashEncoder_forward_st_sound:
  assumes "a < length st"
  shows "(case HashEncoder_forward_st h st a bnd of
      Inl e \<Rightarrow> HashEncoder_forward h (st ! a) bnd = Inl e
    | Inr (st', a') \<Rightarrow> HashEncoder_forward h (st ! a) bnd = Inr (st' ! a') \<and>
                       a' < length st' \<and> extends st st')"
proof (cases "enc_call (encoder h) (st ! a) (Some bnd)")
  case (Inl e)
  then show ?thesis by (simp add: HashEncoder_forward_st_def HashEncoder_forward_def)
next
  case (Inr e)
  have "length st < length (st @ [e])" by simp
  from MLP_forward_st_sound[OF this, of "mlp h"] show ?thesis
    using Inr
    by (auto simp: HashEncoder_forward_st_def HashEncoder_forward_def alloc_def
          split: sum.splits intro: extends_trans[OF extends_append])
qed

lemma HashEncoder_forward_st_Inr:
  assumes "a < length st" and "HashEncoder_forward h (st ! a) bnd = Inr v"
  shows "\<exists>st' a'. HashEncoder_forward_st h st a bnd = Inr (st', a') \<and> st' ! a' = v \<and>
                  a' < length st' \<and> extends st st'"
  using HashEncoder_forward_st_sound[OF assms(1), of h bnd] assms(2)
  by (auto split: sum.splits)

lemma MLP_forward_st_Inr:
  assumes "a < length st" and "MLP_forward m (st ! a) = Inr v"
  shows "\<exists>st' a'. MLP_forward_st m st a = Inr (st', a') \<and> st' ! a' = v \<and>
                  a' < length st' \<and> extends st st'"
  using MLP_forward_st_sound[OF assms(1), of m] assms(2)
  by (auto split: sum.splits)

lemma index_cols_row3 [simp]:
  "index_cols (row3 x) [0, 1] = index_01 x"
  "index_cols (row3 x) [1, 2] = index_12 x"
  "index_cols (row3 x) [0, 2] = index_02 x"
  "index_cols (row3 x) [0, Suc 0] = index_01 x"
  "index_cols (row3 x) [Suc 0, 2] = index_12 x"
  by (simp_all add: index_cols_def row3_def index_01_def index_12_def index_02_def
        split: prod.split)

lemma common_forward_st_Inr:
  assumes ax: "ax < length st" and x: "st ! ax = row3 x"
    and c: "common_forward n x = Inr (fg, f01, f12, f02)"
  shows "\<exists>st' a1 a2 a3 a4.
     common_forward_st n st ax = Inr (st', a1, a2, a3, a4) \<and>
     st' ! a1 = fg \<and> st' ! a2 = f01 \<and> st' ! a3 = f12 \<and> st' ! a4 = f02 \<and>
     extends st st'"
proof -
  from c have 1: "HashEncoder_forward (grid n) (st ! ax) (bound n) = Inr fg"
    and 2: "HashEncoder_forward (planeXY n) (index_01 x) (bound n) = Inr f01"
    and 3: "HashEncoder_forward (planeYZ n) (index_12 x) (bound n) = Inr f12"
    and 4: "HashEncoder_forward (planeXZ n) (index_02 x) (bound n) = Inr f02"
    unfolding x by (auto simp: common_forward_def and_then_def split: sum.splits)
  obtain st1 a1 where r1: "HashEncoder_forward_st (grid n) st ax (bound n) = Inr (st1, a1)"
    and v1: "st1 ! a1 = fg" and l1: "a1 < length st1" and e1: "extends st st1"
    using HashEncoder_forward_st_Inr[OF ax 1] by blast
  have x1: "st1 ! ax = row3 x" using extends_nth[OF e1 ax] x by simp
  let ?st2 = "st1 @ [index_01 x]"
  have "\<exists>st' a'. HashEncoder_forward_st (planeXY n) ?st2 (length st1) (bound n) = Inr (st', a') \<and>
      st' ! a' = f01 \<and> a' < length st' \<and> extends ?st2 st'"
    by (rule HashEncoder_forward_st_Inr) (simp_all add: 2)
  then obtain st3 a2 where
    r2: "HashEncoder_forward_st (planeXY n) ?st2 (length st1) (bound n) = Inr (st3, a2)"
    and v2: "st3 ! a2 = f01" and l2: "a2 < length st3" and e2: "extends ?st2 st3"
    by blast
  have e13: "extends st1 st3" using extends_trans[OF extends_append e2] .
  have e03: "extends st st3" using extends_trans[OF e1 e13] .
  have x3: "st3 ! ax = row3 x" using extends_nth[OF e03 ax] x by simp
  let ?st4 = "st3 @ [index_12 x]"
  have "\<exists>st' a'. HashEncoder_forward_st (planeYZ n) ?st4 (length st3) (bound n) = Inr (st', a') \<and>
      st' ! a' = f12 \<and> a' < length st' \<and> extends ?st4 st'"
    by (rule HashEncoder_forward_st_Inr) (simp_all add: 3)
  then obtain st5 a3 where
    r3: "HashEncoder_forward_st (planeYZ n) ?st4 (length st3) (bound n) = Inr (st5, a3)"
    and v3: "st5 ! a3 = f12" and l3: "a3 < length st5" and e3: "extends ?st4 st5"
    by blast
  have e35: "extends st3 st5" using extends_trans[OF extends_append e3] .
  have e05: "extends st st5" using extends_trans[OF e03 e35] .
  have x5: "st5 ! ax = row3 x" using extends_nth[OF e05 ax] x by simp
  let ?st6 = "st5 @ [index_02 x]"
  have "\<exists>st' a'. HashEncoder_forward_st (planeXZ n) ?st6 (length st5) (bound n) = Inr (st', a') \<and>
      st' ! a' = f02 \<and> a' < length st' \<and> extends ?st6 st'"
    by (rule HashEncoder_forward_st_Inr) (simp_all add: 4)
  then obtain st7 a4 where
    r4: "HashEncoder_forward_st (planeXZ n) ?st6 (length st5) (bound n) = Inr (st7, a4)"
    and v4: "st7 ! a4 = f02" and l4: "a4 < length st7" and e4: "extends ?st6 st7"
    by blast
  have e57: "extends st5 st7" using extends_trans[OF extends_append e4] .
  have e37: "extends st3 st7" using extends_trans[OF e35 e57] .
  have e17: "extends st1 st7" using extends_trans[OF e13 e37] .
  have e07: "extends st st7" using extends_trans[OF e1 e17] .
  have "common_forward_st n st ax = Inr (st7, a1, a2, a3, a4)"
    unfolding common_forward_st_def
    using r1 r2 r3 r4 x1 x3 x5 by (simp add: alloc_def)
  moreover have "st7 ! a1 = fg" using extends_nth[OF e17 l1] v1 by simp
  moreover have "st7 ! a2 = f01" using extends_nth[OF e37 l2] v2 by simp
  moreover have "st7 ! a3 = f12" using extends_nth[OF e57 l3] v3 by simp
  ultimately show ?thesis using v4 e07 by blast
qed

lemma forward_st_Inr:
  assumes ax: "ax < length st" and ad: "ad < length st"
    and x: "st ! ax = row3 x" and d: "st ! ad = row3 d"
    and fo: "forward n x d shading = Inr r"
  shows "\<exists>st'. forward_st n st ax ad shading = Inr (st', r) \<and> extends st st'"
proof -
  obtain fg f01 f12 f02 where c: "common_forward n x = Inr (fg, f01, f12, f02)"
    using fo by (cases "common_forward n x") (auto simp: forward_def)
  obtain f where f: "sum4 (fg, f01, f12, f02) = Inr f"
    using fo c by (cases "sum4 (fg, f01, f12, f02)") (auto simp: forward_def)
  obtain f0 where f0: "getitem f 0 = Inr f0"
    using fo c f by (cases "getitem f 0") (auto simp: forward_def)
  obtain d1 where d1: "enc_call (view_encoder n) (row3 d) None = Inr d1"
    using fo c f f0
    by (cases "enc_call (view_encoder n) (row3 d) None") (auto simp: forward_def Let_def)
  obtain st1 a1 a2 a3 a4 where
    r1: "common_forward_st n st ax = Inr (st1, a1, a2, a3, a4)"
    and v: "st1 ! a1 = fg" "st1 ! a2 = f01" "st1 ! a3 = f12" "st1 ! a4 = f02"
    and e1: "extends st st1"
    using common_forward_st_Inr[OF ax x c] by blast
  have d': "st1 ! ad = row3 d" using extends_nth[OF e1 ad] d by simp
  let ?diffuse = "map sigmoid (slice f 1 4)"
  let ?in = "cat [?diffuse, map sigmoid (slice_from f 4), d1]"
  show ?thesis
  proof (cases "shading = ''diffuse''")
    case True
    then have "forward_st n st ax ad shading = Inr (st1, r)"
      using fo c f f0 d1 r1 v d' by (simp add: forward_st_def forward_def Let_def)
    then show ?thesis using e1 by blast
  next
    case False
    obtain s where s: "MLP_forward (view_mlp n) ?in = Inr s"
      using fo c f f0 d1 False
      by (cases "MLP_forward (view_mlp n) ?in") (auto simp: forward_def Let_def)
    have "\<exists>st' a'. MLP_forward_st (view_mlp n) (st1 @ [?in]) (length st1) = Inr (st', a') \<and>
        st' ! a' = s \<and> a' < length st' \<and> extends (st1 @ [?in]) st'"
      by (rule MLP_forward_st_Inr) (use s in simp_all)
    then obtain st3 a where
      r3: "MLP_forward_st (view_mlp n) (st1 @ [?in]) (length st1) = Inr (st3, a)"
      and v3: "st3 ! a = s" and e3: "extends (st1 @ [?in]) st3"
      by blast
    have e: "extends st st3"
      using extends_trans[OF e1 extends_trans[OF extends_append e3]] .
    have "forward_st n st ax ad shading = Inr (st3, r)"
      using fo c f f0 d1 r1 v d' False s r3 v3
      by (simp add: forward_st_def forward_def Let_def alloc_def)
         (auto simp: and_then_def split: sum.splits if_splits)
    then show ?thesis using e by blast
  qed
qed

text \<open>
  C7. \<^verbatim>\<open>forward\<close> and \<^verbatim>\<open>common_forward\<close> keep no hidden state: run over the store of
  tensor objects, with the in-place ReLU of \<^verbatim>\<open>MLP.forward\<close> written into it, a call
  leaves every tensor that existed before it unchanged (the inputs \<open>x\<close> and \<open>d\<close>
  among them), and a second call on the same \<open>(x, d, shading)\<close> returns the same sigma,
  color and specular; a second call of \<^verbatim>\<open>common_forward\<close> on the same \<open>x\<close> returns
  the same four feature tensors. The results are those of the functions of the inputs and
  the parameters alone.
\<close>

theorem forward_deterministic:
  assumes "conforming fw"
    and "ax < length st" and "ad < length st"
    and "st ! ax = row3 x" and "st ! ad = row3 d"
  shows "(\<exists>st1 r st2.
            forward_st (NeRFNetwork_init fw options) st ax ad shading = Inr (st1, r) \<and>
            forward_st (NeRFNetwork_init fw options) st1 ax ad shading = Inr (st2, r) \<and>
            extends st st1 \<and> extends st1 st2 \<and>
            forward (NeRFNetwork_init fw options) x d shading = Inr r) \<and>
         (\<exists>st1 a1 a2 a3 a4 st2 b1 b2 b3 b4.
            common_forward_st (NeRFNetwork_init fw options) st ax = Inr (st1, a1, a2, a3, a4) \<and>
            common_forward_st (NeRFNetwork_init fw options) st1 ax = Inr (st2, b1, b2, b3, b4) \<and>
            extends st st1 \<and> extends st1 st2 \<and>
            (st2 ! b1, st2 ! b2, st2 ! b3, st2 ! b4) = (st1 ! a1, st1 ! a2, st1 ! a3, st1 ! a4) \<and>
            common_forward (NeRFNetwork_init fw options) x =
              Inr (st1 ! a1, st1 ! a2, st1 ! a3, st1 ! a4))"
proof -
  let ?n = "NeRFNetwork_init fw options"
  obtain r where r: "forward ?n x d shading = Inr r"
    using forward_ok[OF assms(1), of options x d shading] by blast
  obtain st1 where 1: "forward_st ?n st ax ad shading = Inr (st1, r)" and e1: "extends st st1"
    using forward_st_Inr[OF assms(2-5) r] by blast
  have "ax < length st1" "ad < length st1" "st1 ! ax = row3 x" "st1 ! ad = row3 d"
    using extends_length[OF e1] extends_nth[OF e1] assms(2-5) by simp_all
  then obtain st2 where 2: "forward_st ?n st1 ax ad shading = Inr (st2, r)"
    and e2: "extends st1 st2"
    using forward_st_Inr[OF _ _ _ _ r] by blast
  obtain fg f01 f12 f02 where c: "common_forward ?n x = Inr (fg, f01, f12, f02)"
    using common_forward_ok[OF assms(1), of options x] by blast
  obtain t1 a1 a2 a3 a4 where
    3: "common_forward_st ?n st ax = Inr (t1, a1, a2, a3, a4)"
    and v: "t1 ! a1 = fg" "t1 ! a2 = f01" "t1 ! a3 = f12" "t1 ! a4 = f02"
    and e3: "extends st t1"
    using common_forward_st_Inr[OF assms(2,4) c] by blast
  have "ax < length t1" "t1 ! ax = row3 x"
    using extends_length[OF e3] extends_nth[OF e3] assms(2,4) by simp_all
  then obtain t2 b1 b2 b3 b4 where
    4: "common_forward_st ?n t1 ax = Inr (t2, b1, b2, b3, b4)"
    and w: "t2 ! b1 = fg" "t2 ! b2 = f01" "t2 ! b3 = f12" "t2 ! b4 = f02"
    and e4: "extends t1 t2"
    using common_forward_st_Inr[OF _ _ c] by blast
  have "\<exists>st1 r st2.
      forward_st ?n st ax ad shading = Inr (st1, r) \<and>
      forward_st ?n st1 ax ad shading = Inr (st2, r) \<and>
      extends st st1 \<and> extends st1 st2 \<and> forward ?n x d shading = Inr r"
    using 1 2 e1 e2 r by blast
  moreover have "common_forward_st ?n st ax = Inr (t1, a1, a2, a3, a4) \<and>
      common_forward_st ?n t1 ax = Inr (t2, b1, b2, b3, b4) \<and>
      extends st t1 \<and> extends t1 t2 \<and>
      (t2 ! b1, t2 ! b2, t2 ! b3, t2 ! b4) = (t1 ! a1, t1 ! a2, t1 ! a3, t1 ! a4) \<and>
      common_forward ?n x = Inr (t1 ! a1, t1 ! a2, t1 ! a3, t1 ! a4)"
    using 3 4 e3 e4 v w c by simp
  ultimately show ?thesis by blast
qed

text \<open>
  C7 on a concrete network, with \<open>x\<close> and \<open>d\<close> the two tensors of the store: both
  calls return the same results.
\<close>

theorem forward_deterministic_witness:
  "conforming example_torch \<and>
   (0::nat) < length [[0, 0, 0], [0, 0, - 1 :: real]] \<and>
   (1::nat) < length [[0, 0, 0], [0, 0, - 1 :: real]] \<and>
   [[0, 0, 0], [0, 0, - 1]] ! 0 = row3 (0, 0, 0) \<and>
   [[0, 0, 0], [0, 0, - 1]] ! 1 = row3 (0, 0, - 1) \<and>
   (\<exists>st1 st2.
      forward_st (NeRFNetwork_init example_torch \<lparr> cuda_ray = True, opt_bound = 1 \<rparr>)
          [[0, 0, 0], [0, 0, - 1]] 0 1 ''full'' =
        Inr (st1, [(''sigma'', Some (Sc (exp (- 1)))), (''color'', Some (Vec [1, 1, 1])),
                   (''specular'', Some (Vec [1 / 2, 1 / 2, 1 / 2]))]) \<and>
      forward_st (NeRFNetwork_init example_torch \<lparr> cuda_ray = True, opt_bound = 1 \<rparr>)
          st1 0 1 ''full'' =
        Inr (st2, [(''sigma'', Some (Sc (exp (- 1)))), (''color'', Some (Vec [1, 1, 1])),
                   (''specular'', Some (Vec [1 / 2, 1 / 2, 1 / 2]))]))"
proof -
  have h: "[[0, 0, 0], [0, 0, - 1]] ! 0 = row3 (0, 0, 0)"
    "[[0, 0, 0], [0, 0, - 1]] ! 1 = row3 (0, 0, - 1)"
    by (simp_all add: row3_def)
  show ?thesis
    using forward_deterministic
            [OF conforming_example, of 0 "[[0, 0, 0], [0, 0, - 1]]" 1 "(0, 0, 0)" "(0, 0, - 1)"
               "\<lparr> cuda_ray = True, opt_bound = 1 \<rparr>" "''full''"]
          conforming_example h
          forward_example[of "\<lparr> cuda_ray = True, opt_bound = 1 \<rparr>" "''full''"]
    by auto
qed

end
